theory Spec2Isabelle
  imports Complex_Main
begin

section \<open>Strings\<close>

text \<open>
  JavaScript strings are modelled as lists of 8-bit characters, so the development covers
  ASCII text. \<open>toLowerCase\<close> maps the letters A to Z to a to z and leaves every other
  character alone, \<open>trim\<close> removes white space at both ends, and \<open>String_split\<close> cuts a
  string at every occurrence of a separator character, as \<open>String.prototype.split\<close> does.
\<close>

definition lower_char :: "char \<Rightarrow> char" where
  "lower_char c =
     (case map_of (zip ''ABCDEFGHIJKLMNOPQRSTUVWXYZ'' ''abcdefghijklmnopqrstuvwxyz'') c of
        Some l \<Rightarrow> l
      | None \<Rightarrow> c)"

definition toLowerCase :: "string \<Rightarrow> string" where
  "toLowerCase s = map lower_char s"

definition isWhiteSpace :: "char \<Rightarrow> bool" where
  "isWhiteSpace c = (c \<in> set [CHR '' '', CHR 0x09, CHR 0x0A, CHR 0x0B, CHR 0x0C, CHR 0x0D])"

definition trim :: "string \<Rightarrow> string" where
  "trim s = rev (dropWhile isWhiteSpace (rev (dropWhile isWhiteSpace s)))"

fun String_split :: "char \<Rightarrow> string \<Rightarrow> string list" where
  "String_split sep [] = [] # []"
| "String_split sep (c # cs) =
     (if c = sep then [] # String_split sep cs
      else (case String_split sep cs of
              [] \<Rightarrow> [c] # []
            | w # ws \<Rightarrow> (c # w) # ws))"

section \<open>The document store\<close>

text \<open>
  The Firestore database is an external service. It is modelled by a record holding the two
  collections the program uses, each an association list from document id to document
  data, the server's clock (the value \<open>serverTimestamp()\<close> resolves to), the set of
  operations the store currently refuses (an unreachable store refuses them all), and the
  trace of requests that were sent to it. Every request returns either an error or a
  value, together with the store afterwards. Document ids of \<open>allowedUsers\<close> are strings
  (the e-mail address for documents written by the admin panel, anything for older
  documents); ids of \<open>eggEntries\<close> are assigned by the store and modelled as numbers.
  Ids are opaque keys: the path syntax of the client library is not modelled.
\<close>

datatype store_op = GetDoc | GetDocs | AddDoc | SetDoc | UpdateDoc | DeleteDoc | BatchCommit

datatype store_error = StoreUnavailable | NotFound

record AllowedUserDoc =
  doc_email :: "string option"
  doc_displayName :: "string option"
  doc_addedAt :: "int option"
  doc_addedBy :: "string option"

record EggDoc =
  date :: int
  count :: "int option"
  userId :: string
  userName :: string
  createdAt :: "int option"
  updatedAt :: "int option"

record store =
  coll_allowedUsers :: "(string \<times> AllowedUserDoc) list"
  coll_eggEntries :: "(nat \<times> EggDoc) list"
  serverTime :: int
  failing :: "store_op list"
  calls :: "store_op list"

definition request :: "store_op \<Rightarrow> store \<Rightarrow> store" where
  "request op st = st\<lparr>calls := calls st @ [op]\<rparr>"

definition refuses :: "store \<Rightarrow> store_op \<Rightarrow> bool" where
  "refuses st op = (op \<in> set (failing st))"

text \<open>\<open>getDoc(doc(db, 'allowedUsers', key))\<close>: the snapshot of one document.\<close>

definition getDoc_allowedUsers ::
  "string \<Rightarrow> store \<Rightarrow> (store_error + AllowedUserDoc option) \<times> store" where
  "getDoc_allowedUsers key st =
     (if refuses st GetDoc then Inl StoreUnavailable
      else Inr (map_of (coll_allowedUsers st) key),
      request GetDoc st)"

text \<open>\<open>getDocs(query(collection(db, 'allowedUsers'), where('email', '==', e)))\<close>.\<close>

definition getDocs_allowedUsers_where_email ::
  "string \<Rightarrow> store \<Rightarrow> (store_error + (string \<times> AllowedUserDoc) list) \<times> store" where
  "getDocs_allowedUsers_where_email e st =
     (if refuses st GetDocs then Inl StoreUnavailable
      else Inr (filter (\<lambda>(key, d). doc_email d = Some e) (coll_allowedUsers st)),
      request GetDocs st)"

section \<open>Authorization: adminHelpers.ts\<close>

text \<open>
  A signed-in identity is the \<open>User\<close> object of the identity provider; its \<open>email\<close> and
  \<open>displayName\<close> may be \<open>null\<close>. \<open>ADMIN_EMAILS\<close> is read once from the environment
  variable \<open>VITE_ADMIN_EMAILS\<close>: absent or empty gives the empty list, otherwise the value
  is split at commas and every piece trimmed.
\<close>

record User =
  uid :: string
  email :: "string option"
  displayName :: "string option"

definition ADMIN_EMAILS :: "string option \<Rightarrow> string list" where
  "ADMIN_EMAILS env =
     (case env of
        None \<Rightarrow> []
      | Some s \<Rightarrow> if s = [] then [] else map trim (String_split CHR '','' s))"

text \<open>
  \<open>isAdmin\<close>: \<open>false\<close> without a user or with a missing or empty e-mail, otherwise
  \<open>ADMIN_EMAILS.includes(user.email)\<close>, which compares strings exactly.
\<close>

definition isAdmin :: "string list \<Rightarrow> User option \<Rightarrow> bool" where
  "isAdmin admins usr =
     (case usr of
        None \<Rightarrow> False
      | Some u \<Rightarrow>
          (case email u of
             None \<Rightarrow> False
           | Some e \<Rightarrow> if e = [] then False else e \<in> set admins))"

text \<open>
  The body of the \<open>try\<close> block of \<open>isUserAllowed\<close>: first the document whose id is the
  lower-cased e-mail, then the documents whose \<open>email\<close> field equals the lower-cased
  e-mail. A request that throws ends the block with the error.
\<close>

definition isUserAllowed_try :: "string \<Rightarrow> store \<Rightarrow> (store_error + bool) \<times> store" where
  "isUserAllowed_try e st =
     (let userEmail = toLowerCase e in
      case getDoc_allowedUsers userEmail st of
        (Inl err, st1) \<Rightarrow> (Inl err, st1)
      | (Inr (Some d), st1) \<Rightarrow> (Inr True, st1)
      | (Inr None, st1) \<Rightarrow>
          (case getDocs_allowedUsers_where_email userEmail st1 of
             (Inl err, st2) \<Rightarrow> (Inl err, st2)
           | (Inr found, st2) \<Rightarrow> (Inr (found \<noteq> []), st2)))"

text \<open>
  \<open>isUserAllowed\<close>: the guard on the e-mail, the admin shortcut, then the \<open>try\<close> block;
  the \<open>catch\<close> clause logs the error and returns \<open>false\<close>. The caller receives the
  boolean only.
\<close>

definition isUserAllowed :: "string list \<Rightarrow> User option \<Rightarrow> store \<Rightarrow> bool \<times> store" where
  "isUserAllowed admins usr st =
     (case usr of
        None \<Rightarrow> (False, st)
      | Some u \<Rightarrow>
          (case email u of
             None \<Rightarrow> (False, st)
           | Some e \<Rightarrow>
               if e = [] then (False, st)
               else if isAdmin admins usr then (True, st)
               else (case isUserAllowed_try e st of
                       (Inl err, st') \<Rightarrow> (False, st')
                     | (Inr allowed, st') \<Rightarrow> (allowed, st'))))"

section \<open>Dates\<close>

text \<open>
  A JavaScript \<open>Date\<close> is its time value, the number of milliseconds since the epoch, an
  integer here. The calendar is the one of the language standard: \<open>Day\<close>,
  \<open>TimeWithinDay\<close>, \<open>DayFromYear\<close>, \<open>YearFromTime\<close>, \<open>MonthFromTime\<close>,
  \<open>DateFromTime\<close>, \<open>MakeTime\<close>, \<open>MakeDay\<close> and \<open>MakeDate\<close>. \<open>YearFromTime\<close> is
  computed from an estimate that is corrected by at most one year. Months count from 0.
  The local time zone is taken to be UTC, so local time and time value coincide.
\<close>

definition msPerDay :: int where
  "msPerDay = 86400000"

definition Day :: "int \<Rightarrow> int" where
  "Day t = t div msPerDay"

definition TimeWithinDay :: "int \<Rightarrow> int" where
  "TimeWithinDay t = t mod msPerDay"

definition DaysInYear :: "int \<Rightarrow> int" where
  "DaysInYear y =
     (if y mod 4 \<noteq> 0 then 365
      else if y mod 100 \<noteq> 0 then 366
      else if y mod 400 \<noteq> 0 then 365
      else 366)"

definition DayFromYear :: "int \<Rightarrow> int" where
  "DayFromYear y =
     365 * (y - 1970) + (y - 1969) div 4 - (y - 1901) div 100 + (y - 1601) div 400"

definition YearFromTime :: "int \<Rightarrow> int" where
  "YearFromTime t =
     (let d = Day t; y = 1970 + (d * 400) div 146097 in
      if DayFromYear (y + 1) \<le> d then y + 1
      else if d < DayFromYear y then y - 1
      else y)"

definition DayWithinYear :: "int \<Rightarrow> int" where
  "DayWithinYear t = Day t - DayFromYear (YearFromTime t)"

text \<open>The day of the year on which each month of year \<open>y\<close> starts.\<close>

definition month_starts :: "int \<Rightarrow> int list" where
  "month_starts y =
     (let l = (if DaysInYear y = 366 then 1 else 0) in
      [0, 31, 59 + l, 90 + l, 120 + l, 151 + l, 181 + l, 212 + l, 243 + l, 273 + l,
       304 + l, 334 + l])"

definition MonthFromTime :: "int \<Rightarrow> int" where
  "MonthFromTime t =
     int (length (filter (\<lambda>s. s \<le> DayWithinYear t) (month_starts (YearFromTime t)))) - 1"

definition DateFromTime :: "int \<Rightarrow> int" where
  "DateFromTime t =
     DayWithinYear t - month_starts (YearFromTime t) ! nat (MonthFromTime t) + 1"

definition MakeTime :: "int \<Rightarrow> int \<Rightarrow> int \<Rightarrow> int \<Rightarrow> int" where
  "MakeTime h m s ms = h * 3600000 + m * 60000 + s * 1000 + ms"

text \<open>
  \<open>MakeDay\<close> accepts a month outside 0..11 and a day outside the month: the month carries
  into the year and the day is counted on from the first of the month.
\<close>

definition MakeDay :: "int \<Rightarrow> int \<Rightarrow> int \<Rightarrow> int" where
  "MakeDay year month dt =
     (let ym = year + month div 12; mn = month mod 12 in
      DayFromYear ym + month_starts ym ! nat mn + dt - 1)"

definition MakeDate :: "int \<Rightarrow> int \<Rightarrow> int" where
  "MakeDate day time = day * msPerDay + time"

text \<open>\<open>new Date(year, month, date, hours, minutes, seconds, ms)\<close> for a four-digit year.\<close>

definition new_Date :: "int \<Rightarrow> int \<Rightarrow> int \<Rightarrow> int \<Rightarrow> int \<Rightarrow> int \<Rightarrow> int \<Rightarrow> int" where
  "new_Date year month dt h m s ms = MakeDate (MakeDay year month dt) (MakeTime h m s ms)"

definition getFullYear :: "int \<Rightarrow> int" where
  "getFullYear t = YearFromTime t"

definition getMonth :: "int \<Rightarrow> int" where
  "getMonth t = MonthFromTime t"

definition setMonth :: "int \<Rightarrow> int \<Rightarrow> int" where
  "setMonth t month =
     MakeDate (MakeDay (YearFromTime t) month (DateFromTime t)) (TimeWithinDay t)"

definition setHours :: "int \<Rightarrow> int \<Rightarrow> int \<Rightarrow> int \<Rightarrow> int \<Rightarrow> int" where
  "setHours t h m s ms = MakeDate (Day t) (MakeTime h m s ms)"

section \<open>Requests on the collection of entries\<close>

text \<open>
  A query returns the matching documents; documents without a usable field never match a
  condition on it. \<open>addDoc\<close> stores a new document under an id the store chooses; a field
  written as \<open>serverTimestamp()\<close> is filled in by the store, so the document to write is
  given as a function of the server's clock. \<open>updateDoc\<close> fails when the document does not
  exist, \<open>deleteDoc\<close> succeeds whether it exists or not, and a write batch of deletions
  is applied as a whole or not at all.
\<close>

definition getDocs_eggEntries ::
  "(EggDoc \<Rightarrow> bool) \<Rightarrow> store \<Rightarrow> (store_error + (nat \<times> EggDoc) list) \<times> store" where
  "getDocs_eggEntries cond st =
     (if refuses st GetDocs then Inl StoreUnavailable
      else Inr (filter (\<lambda>(key, d). cond d) (coll_eggEntries st)),
      request GetDocs st)"

definition fresh_id :: "(nat \<times> 'a) list \<Rightarrow> nat" where
  "fresh_id docs = Suc (fold max (map fst docs) 0)"

definition addDoc_eggEntries ::
  "(int \<Rightarrow> EggDoc) \<Rightarrow> store \<Rightarrow> (store_error + nat) \<times> store" where
  "addDoc_eggEntries data st =
     (if refuses st AddDoc then (Inl StoreUnavailable, request AddDoc st)
      else (Inr (fresh_id (coll_eggEntries st)),
            request AddDoc
              (st\<lparr>coll_eggEntries :=
                    coll_eggEntries st @
                      [(fresh_id (coll_eggEntries st), data (serverTime st))]\<rparr>)))"

definition updateDoc_eggEntries ::
  "nat \<Rightarrow> (int \<Rightarrow> EggDoc \<Rightarrow> EggDoc) \<Rightarrow> store \<Rightarrow> (store_error + unit) \<times> store" where
  "updateDoc_eggEntries key upd st =
     (if refuses st UpdateDoc then (Inl StoreUnavailable, request UpdateDoc st)
      else if map_of (coll_eggEntries st) key = None then (Inl NotFound, request UpdateDoc st)
      else (Inr (),
            request UpdateDoc
              (st\<lparr>coll_eggEntries :=
                    map (\<lambda>(k, d). if k = key then (k, upd (serverTime st) d) else (k, d))
                      (coll_eggEntries st)\<rparr>)))"

definition deleteDoc_eggEntries :: "nat \<Rightarrow> store \<Rightarrow> (store_error + unit) \<times> store" where
  "deleteDoc_eggEntries key st =
     (if refuses st DeleteDoc then (Inl StoreUnavailable, request DeleteDoc st)
      else (Inr (),
            request DeleteDoc
              (st\<lparr>coll_eggEntries := filter (\<lambda>(k, d). k \<noteq> key) (coll_eggEntries st)\<rparr>)))"

definition batch_commit_eggEntries ::
  "nat list \<Rightarrow> store \<Rightarrow> (store_error + unit) \<times> store" where
  "batch_commit_eggEntries keys st =
     (if refuses st BatchCommit then (Inl StoreUnavailable, request BatchCommit st)
      else (Inr (),
            request BatchCommit
              (st\<lparr>coll_eggEntries :=
                    filter (\<lambda>(k, d). k \<notin> set keys) (coll_eggEntries st)\<rparr>)))"

section \<open>The entry form: EggTracker.tsx\<close>

text \<open>
  The component's state is a record of the React state variables the handlers read and
  write. Messages shown to the user are constructors rather than the Swedish texts:
  \<open>CountTooLow\<close> is "Antal agg maste vara storre an 0", \<open>CountTooHigh\<close> "Antal agg kan
  inte vara fler an 100", \<open>InvalidDate\<close> "Ogiltigt datum", \<open>FutureDate\<close> "Du kan inte
  registrera agg for framtida datum", \<open>DuplicateEntry\<close> "Du har redan registrerat agg for
  detta datum", \<open>EditWindowClosed\<close> "Du kan endast redigera poster fran den senaste
  manaden", \<open>DeleteWindowClosed\<close> "Du kan endast ta bort poster fran den senaste
  manaden"; the others report a failed request. An invalid \<open>Date\<close> is \<open>None\<close>. The
  current time, read by the handlers with \<open>new Date()\<close>, and the answer to a \<open>confirm\<close>
  dialogue are parameters. Timers that clear a message or reset the form later are not
  part of a handler's result.
\<close>

record EggEntry =
  entry_id :: nat
  entry_date :: int
  entry_count :: int
  entry_userId :: string
  entry_userName :: string

datatype tracker_error =
  CountTooLow | CountTooHigh | InvalidDate | FutureDate | DuplicateEntry
  | ExistenceCheckFailed | SaveFailed | UnexpectedSaveError
  | EditWindowClosed | DeleteWindowClosed | DeleteFailed

datatype tracker_success = EntryUpdated | EntrySaved | EntryDeleted

record tracker =
  user :: "User option"
  eggCount :: int
  selectedDate :: "int option"
  eggEntries :: "EggEntry list"
  errorMessage :: "tracker_error option"
  successMessage :: "tracker_success option"
  editEntry :: "EggEntry option"
  isSubmitting :: bool

definition anonymous_user_name :: string where
  "anonymous_user_name = ''Anonym anvandare''"

text \<open>
  \<open>startOfDay\<close> and \<open>endOfDay\<close> are the copies of a date that \<open>saveEggEntry\<close> makes with
  \<open>setHours(0, 0, 0, 0)\<close> and \<open>setHours(23, 59, 59, 999)\<close>.
\<close>

definition startOfDay :: "int \<Rightarrow> int" where
  "startOfDay d = setHours d 0 0 0 0"

definition endOfDay :: "int \<Rightarrow> int" where
  "endOfDay d = setHours d 23 59 59 999"

text \<open>\<open>getMaxAllowedDate\<close>: a copy of today with its month set one back.\<close>

definition getMaxAllowedDate :: "int \<Rightarrow> int" where
  "getMaxAllowedDate today = setMonth today (getMonth today - 1)"

text \<open>
  \<open>saveEggEntry\<close>. The checks on the count and the date come first and return before any
  request. With an entry under edit the document is updated; otherwise the store is asked
  for the user's entries dated between the start and the end of the selected day, and the
  new entry is added only when there is none.
\<close>

definition saveEggEntry :: "int \<Rightarrow> tracker \<Rightarrow> store \<Rightarrow> tracker \<times> store" where
  "saveEggEntry now ui st =
     (case user ui of
        None \<Rightarrow> (ui, st)
      | Some u \<Rightarrow>
          if eggCount ui \<le> 0 then (ui\<lparr>errorMessage := Some CountTooLow\<rparr>, st)
          else if eggCount ui > 100 then (ui\<lparr>errorMessage := Some CountTooHigh\<rparr>, st)
          else
            (case selectedDate ui of
               None \<Rightarrow> (ui\<lparr>errorMessage := Some InvalidDate\<rparr>, st)
             | Some d \<Rightarrow>
                 if startOfDay d > startOfDay now
                 then (ui\<lparr>errorMessage := Some FutureDate\<rparr>, st)
                 else
                   (let ui1 = ui\<lparr>errorMessage := None, isSubmitting := True\<rparr> in
                    case editEntry ui of
                      Some e \<Rightarrow>
                        (case updateDoc_eggEntries (entry_id e)
                                (\<lambda>ts doc. doc\<lparr>count := Some (eggCount ui), date := d,
                                              updatedAt := Some ts\<rparr>) st of
                           (Inl err, st1) \<Rightarrow>
                             (ui1\<lparr>errorMessage := Some UnexpectedSaveError,
                                  isSubmitting := False\<rparr>, st1)
                         | (Inr ok, st1) \<Rightarrow>
                             (ui1\<lparr>successMessage := Some EntryUpdated, editEntry := None,
                                  isSubmitting := False\<rparr>, st1))
                    | None \<Rightarrow>
                        (case getDocs_eggEntries
                                (\<lambda>doc. userId doc = uid u \<and> startOfDay d \<le> date doc \<and>
                                       date doc \<le> endOfDay d) st of
                           (Inl err, st1) \<Rightarrow>
                             (ui1\<lparr>errorMessage := Some ExistenceCheckFailed,
                                  isSubmitting := False\<rparr>, st1)
                         | (Inr existing, st1) \<Rightarrow>
                             if existing \<noteq> []
                             then (ui1\<lparr>errorMessage := Some DuplicateEntry,
                                       isSubmitting := False\<rparr>, st1)
                             else
                               (case addDoc_eggEntries
                                       (\<lambda>ts. \<lparr>date = d, count = Some (eggCount ui),
                                              userId = uid u,
                                              userName =
                                                (case displayName u of
                                                   None \<Rightarrow> anonymous_user_name
                                                 | Some n \<Rightarrow>
                                                     if n = [] then anonymous_user_name else n),
                                              createdAt = Some ts, updatedAt = None\<rparr>) st1 of
                                  (Inl err, st2) \<Rightarrow>
                                    (ui1\<lparr>errorMessage := Some SaveFailed,
                                         isSubmitting := False\<rparr>, st2)
                                | (Inr key, st2) \<Rightarrow>
                                    (ui1\<lparr>successMessage := Some EntrySaved,
                                         isSubmitting := False\<rparr>, st2))))))"

text \<open>
  \<open>handleEdit\<close> refuses an entry dated before \<open>getMaxAllowedDate()\<close>; otherwise it loads
  the entry into the form. It sends nothing to the store: the update is made by
  \<open>saveEggEntry\<close> when the form is saved.
\<close>

definition handleEdit :: "int \<Rightarrow> EggEntry \<Rightarrow> tracker \<Rightarrow> tracker" where
  "handleEdit now entry ui =
     (if entry_date entry < getMaxAllowedDate now
      then ui\<lparr>errorMessage := Some EditWindowClosed\<rparr>
      else ui\<lparr>editEntry := Some entry, eggCount := entry_count entry,
              selectedDate := Some (entry_date entry)\<rparr>)"

text \<open>
  \<open>handleDelete\<close> looks the entry up among the user's loaded entries. A found entry dated
  before \<open>getMaxAllowedDate()\<close> is refused; otherwise, once the user confirms, the
  document is deleted by its id.
\<close>

definition handleDelete :: "int \<Rightarrow> bool \<Rightarrow> nat \<Rightarrow> tracker \<Rightarrow> store \<Rightarrow> tracker \<times> store" where
  "handleDelete now confirmed entryId ui st =
     (if (case find (\<lambda>e. entry_id e = entryId) (eggEntries ui) of
            None \<Rightarrow> False
          | Some entry \<Rightarrow> entry_date entry < getMaxAllowedDate now)
      then (ui\<lparr>errorMessage := Some DeleteWindowClosed\<rparr>, st)
      else if \<not> confirmed then (ui, st)
      else
        (case deleteDoc_eggEntries entryId st of
           (Inl err, st1) \<Rightarrow>
             (ui\<lparr>errorMessage := Some DeleteFailed, isSubmitting := False\<rparr>, st1)
         | (Inr ok, st1) \<Rightarrow>
             (let ui1 = ui\<lparr>successMessage := Some EntryDeleted\<rparr>;
                  ui2 = (if (case editEntry ui of
                               None \<Rightarrow> False
                             | Some e \<Rightarrow> entry_id e = entryId)
                         then ui1\<lparr>editEntry := None, eggCount := 0, selectedDate := Some now\<rparr>
                         else ui1)
              in (ui2\<lparr>isSubmitting := False\<rparr>, st1))))"

section \<open>firestoreHelpers.ts\<close>

text \<open>
  \<open>hasExistingEntryForDate\<close> asks the same question as the form. The helpers
  \<open>firestoreUtils.startOfDay\<close> and \<open>firestoreUtils.endOfDay\<close> it calls are defined
  elsewhere and are parameters here (\<open>utils_startOfDay\<close>, \<open>utils_endOfDay\<close>); they may
  return nothing, and then the answer is \<open>false\<close> without a request. A failed request is
  thrown on to the caller.
\<close>

definition hasExistingEntryForDate ::
  "(int \<Rightarrow> int option) \<Rightarrow> (int \<Rightarrow> int option) \<Rightarrow> string \<Rightarrow> int \<Rightarrow> store
     \<Rightarrow> (store_error + bool) \<times> store" where
  "hasExistingEntryForDate utils_startOfDay utils_endOfDay uid' d st =
     (case (utils_startOfDay d, utils_endOfDay d) of
        (Some s, Some e) \<Rightarrow>
          (case getDocs_eggEntries
                  (\<lambda>doc. userId doc = uid' \<and> s \<le> date doc \<and> date doc \<le> e) st of
             (Inl err, st1) \<Rightarrow> (Inl err, st1)
           | (Inr found, st1) \<Rightarrow> (Inr (found \<noteq> []), st1))
      | _ \<Rightarrow> (Inr False, st))"

section \<open>Numbers\<close>

text \<open>
  Counts and totals are integers, which JavaScript numbers represent exactly below
  \<open>2^53\<close>. A quotient is not an integer, so the arithmetic of the percentage is modelled
  on rationals with the rounding of IEEE 754 binary64: \<open>double x\<close> is the nearest number
  with a 53-bit significand, ties going to the even significand (overflow and subnormal
  numbers do not arise for the values used here). \<open>Math.round\<close> rounds to the nearest
  integer, a tie going up.
\<close>

function bit_length :: "int \<Rightarrow> int" where
  "bit_length n = (if n \<le> 0 then 0 else 1 + bit_length (n div 2))"
  by pat_completeness auto
termination
  by (relation "measure nat") auto

declare bit_length.simps [simp del]

definition pow2 :: "int \<Rightarrow> rat" where
  "pow2 k = (if 0 \<le> k then 2 ^ nat k else 1 / 2 ^ nat (- k))"

text \<open>For positive \<open>x\<close>, \<open>binade x\<close> is the exponent \<open>e\<close> with \<open>2^e \<le> x < 2^(e+1)\<close>.\<close>

definition binade :: "rat \<Rightarrow> int" where
  "binade x =
     (let (p, q) = quotient_of x;
          k = bit_length p - bit_length q
      in if pow2 k \<le> x then k else k - 1)"

definition round_half_even :: "rat \<Rightarrow> int" where
  "round_half_even r =
     (let f = \<lfloor>r\<rfloor>; d = r - of_int f in
      if d < 1 / 2 then f
      else if 1 / 2 < d then f + 1
      else if even f then f else f + 1)"

definition double :: "rat \<Rightarrow> rat" where
  "double x =
     (if x = 0 then 0
      else let a = \<bar>x\<bar>; ulp = pow2 (binade a - 52);
               m = of_int (round_half_even (a / ulp)) * ulp
           in if x < 0 then - m else m)"

definition Math_round :: "rat \<Rightarrow> int" where
  "Math_round x = \<lfloor>x + 1 / 2\<rfloor>"

section \<open>Farm statistics: App.tsx\<close>

text \<open>
  The listener is registered on the query for the entries dated from
  \<open>new Date(currentYear, 0, 1)\<close> to \<open>new Date(currentYear, 11, 31, 23, 59, 59)\<close>, ordered
  by date, latest first; entries with equal dates keep the order of the collection. The
  current year is read once, at the time \<open>now\<close> at which the page is loaded; the
  snapshots the listener receives afterwards are the results of this query on the store.
\<close>

definition eggEntriesQuery :: "int \<Rightarrow> store \<Rightarrow> (nat \<times> EggDoc) list" where
  "eggEntriesQuery now st =
     (let currentYear = getFullYear now;
          startOfYear = new_Date currentYear 0 1 0 0 0 0;
          endOfYear = new_Date currentYear 11 31 23 59 59 0
      in sort_key (\<lambda>(key, d). - date d)
           (filter (\<lambda>(key, d). startOfYear \<le> date d \<and> date d \<le> endOfYear)
              (coll_eggEntries st)))"

record UserTotal =
  ut_userId :: string
  ut_userName :: string
  totalCount :: int

definition unknown_user_name :: string where
  "unknown_user_name = ''Okand anvandare''"

text \<open>
  The body of the \<open>forEach\<close> over the documents of a snapshot: \<open>data.count || 0\<close> is added
  to the total, and, when \<open>data.userId\<close> is not empty, to that user's record in the object
  \<open>totals\<close>, which is created on the user's first document. The object is an association
  list in the order its keys were added; user ids are taken not to be names of properties
  that every object inherits.
\<close>

definition accumulate ::
  "EggDoc \<Rightarrow> int \<times> (string \<times> UserTotal) list \<Rightarrow> int \<times> (string \<times> UserTotal) list" where
  "accumulate data acc =
     (let total = fst acc; totals = snd acc;
          c = (case count data of None \<Rightarrow> 0 | Some n \<Rightarrow> n)
      in if userId data = [] then (total + c, totals)
         else
           (let totals1 =
                  (if map_of totals (userId data) = None
                   then totals @
                          [(userId data,
                            \<lparr>ut_userId = userId data,
                             ut_userName =
                               (if userName data = [] then unknown_user_name
                                else userName data),
                             totalCount = 0\<rparr>)]
                   else totals)
            in (total + c,
                map (\<lambda>(k, u). if k = userId data then (k, u\<lparr>totalCount := totalCount u + c\<rparr>)
                               else (k, u))
                  totals1)))"

text \<open>
  \<open>Object.values\<close> lists the values of the keys that are array indices (canonical decimal
  numerals below \<open>2^32 - 1\<close>) first, in numeric order, and then the values of the other
  keys in the order they were added.
\<close>

definition digit_value :: "char \<Rightarrow> nat" where
  "digit_value c = length (takeWhile (\<lambda>d. d \<noteq> c) ''0123456789'')"

definition array_index :: "string \<Rightarrow> nat option" where
  "array_index s =
     (let n = fold (\<lambda>c acc. 10 * acc + digit_value c) s 0 in
      if s \<noteq> [] \<and> list_all (\<lambda>c. c \<in> set ''0123456789'') s
         \<and> (s = ''0'' \<or> take 1 s \<noteq> ''0'') \<and> n < 4294967295
      then Some n else None)"

definition Object_values :: "(string \<times> 'a) list \<Rightarrow> 'a list" where
  "Object_values props =
     map snd
       (sort_key (\<lambda>(k, v). case array_index k of None \<Rightarrow> 0 | Some n \<Rightarrow> n)
          (filter (\<lambda>(k, v). array_index k \<noteq> None) props)
        @ filter (\<lambda>(k, v). array_index k = None) props)"

text \<open>
  The listener: an empty snapshot gives total 0 and no users; otherwise the documents are
  accumulated and the users sorted with the comparator \<open>b.totalCount - a.totalCount\<close>.
  The sort is stable. The result is the pair of the state variables \<open>totalEggs\<close> and
  \<open>userTotals\<close>.
\<close>

definition App_onSnapshot :: "EggDoc list \<Rightarrow> int \<times> UserTotal list" where
  "App_onSnapshot docs =
     (if docs = [] then (0, [])
      else let acc = fold accumulate docs (0, []) in
           (fst acc, sort_key (\<lambda>u. - totalCount u) (Object_values (snd acc))))"

text \<open>The cell "Andel av totalt" of a user's row.\<close>

definition share :: "int \<Rightarrow> int \<Rightarrow> int" where
  "share totalEggs userTotal =
     (if totalEggs > 0
      then Math_round (double (double (of_int userTotal / of_int totalEggs) * 100))
      else 0)"

text \<open>The statistics shown for a store at a given time.\<close>

definition farm_statistics :: "int \<Rightarrow> store \<Rightarrow> int \<times> UserTotal list" where
  "farm_statistics now st = App_onSnapshot (map snd (eggEntriesQuery now st))"

section \<open>Requests on the allow-list\<close>

text \<open>
  \<open>setDoc\<close> writes the document with the given id, replacing one that exists.
  \<open>Promise.all\<close> over the deletions sends every deletion and fails if one of them fails.
\<close>

definition setDoc_allowedUsers ::
  "string \<Rightarrow> (int \<Rightarrow> AllowedUserDoc) \<Rightarrow> store \<Rightarrow> (store_error + unit) \<times> store" where
  "setDoc_allowedUsers key data st =
     (if refuses st SetDoc then (Inl StoreUnavailable, request SetDoc st)
      else (Inr (),
            request SetDoc
              (st\<lparr>coll_allowedUsers :=
                    (if map_of (coll_allowedUsers st) key = None
                     then coll_allowedUsers st @ [(key, data (serverTime st))]
                     else map (\<lambda>(k, d). if k = key then (k, data (serverTime st)) else (k, d))
                            (coll_allowedUsers st))\<rparr>)))"

definition deleteDoc_allowedUsers :: "string \<Rightarrow> store \<Rightarrow> (store_error + unit) \<times> store" where
  "deleteDoc_allowedUsers key st =
     (if refuses st DeleteDoc then (Inl StoreUnavailable, request DeleteDoc st)
      else (Inr (),
            request DeleteDoc
              (st\<lparr>coll_allowedUsers :=
                    filter (\<lambda>(k, d). k \<noteq> key) (coll_allowedUsers st)\<rparr>)))"

fun Promise_all_deleteDoc :: "string list \<Rightarrow> store \<Rightarrow> (store_error + unit) \<times> store" where
  "Promise_all_deleteDoc [] st = (Inr (), st)"
| "Promise_all_deleteDoc (key # keys) st =
     (case deleteDoc_allowedUsers key st of
        (r, st1) \<Rightarrow>
          (case Promise_all_deleteDoc keys st1 of
             (rs, st2) \<Rightarrow> ((case r of Inl err \<Rightarrow> Inl err | Inr ok \<Rightarrow> rs), st2)))"

section \<open>The admin panel: AdminPanel.tsx\<close>

text \<open>
  The panel keeps the signed-in user, the list of allowed users its listener last
  delivered, the text of the e-mail field and the message it shows. A message has a type
  and a text; the texts are constructors: \<open>EmailRequired\<close> is "E-postadress kravs",
  \<open>InvalidEmail\<close> "Ogiltig e-postadress", \<open>AlreadyAllowed\<close> "Anvandaren ar redan
  tillaten", \<open>UserNotInDatabase\<close> "Anvandaren finns inte i databasen", \<open>NoEggData\<close>
  "Inga aggdata hittades for denna anvandare", \<open>DataCleared n\<close> the report that \<open>n\<close>
  entries were removed; \<open>AddFailed\<close>, \<open>RemoveFailed\<close> and \<open>ClearFailed\<close> report a failed
  request. The panel has its own copy of \<open>ADMIN_EMAILS\<close> and \<open>isAdmin\<close>, word for word
  those of adminHelpers.ts.
\<close>

record AllowedUser =
  au_id :: string
  au_email :: string
  au_displayName :: string
  au_addedAt :: int
  au_addedBy :: string

datatype panel_text =
  EmailRequired | InvalidEmail | AlreadyAllowed | UserAdded | AddFailed
  | UserNotInDatabase | UserRemoved | RemoveFailed
  | NoEggData | DataCleared nat | ClearFailed

datatype message = ErrorMessage panel_text | SuccessMessage panel_text

record panel =
  panel_user :: "User option"
  allowedUsers :: "AllowedUser list"
  newUserEmail :: string
  panel_isSubmitting :: bool
  panel_message :: "message option"

text \<open>
  The listener on the collection: each document becomes an \<open>AllowedUser\<close>, with
  \<open>data.email || doc.id\<close> as its e-mail, and the list is sorted by \<open>addedAt\<close>, latest
  first.
\<close>

definition allowedUsers_onSnapshot :: "int \<Rightarrow> (string \<times> AllowedUserDoc) list \<Rightarrow> AllowedUser list" where
  "allowedUsers_onSnapshot now docs =
     sort_key (\<lambda>u. - au_addedAt u)
       (map (\<lambda>(key, d).
               \<lparr>au_id = key,
                au_email = (case doc_email d of
                              None \<Rightarrow> key
                            | Some e \<Rightarrow> if e = [] then key else e),
                au_displayName = (case doc_displayName d of None \<Rightarrow> [] | Some n \<Rightarrow> n),
                au_addedAt = (case doc_addedAt d of None \<Rightarrow> now | Some t \<Rightarrow> t),
                au_addedBy = (case doc_addedBy d of None \<Rightarrow> [] | Some a \<Rightarrow> a)\<rparr>)
          docs)"

text \<open>
  The test of \<open>/^[^\s@]+@[^\s@]+\.[^\s@]+$/\<close>: a non-empty part without white space or
  \<open>@\<close>, an \<open>@\<close>, and a rest without white space or \<open>@\<close> that has a dot which is neither
  its first nor its last character.
\<close>

definition plain_char :: "char \<Rightarrow> bool" where
  "plain_char c = (\<not> isWhiteSpace c \<and> c \<noteq> CHR ''@'')"

definition emailRegex_test :: "string \<Rightarrow> bool" where
  "emailRegex_test s =
     (takeWhile plain_char s \<noteq> [] \<and>
      (case dropWhile plain_char s of
         [] \<Rightarrow> False
       | c # rest \<Rightarrow>
           c = CHR ''@'' \<and> list_all plain_char rest \<and>
           list_ex (\<lambda>i. rest ! i = CHR ''.'') [1 ..< length rest - 1]))"

text \<open>
  \<open>addUser\<close>: nothing happens unless the signed-in user is an admin. The trimmed e-mail
  must be non-empty, match the pattern and not be in the panel's list (compared in lower
  case). The document is then written under the trimmed, lower-cased e-mail as its id.
\<close>

definition addUser :: "string list \<Rightarrow> panel \<Rightarrow> store \<Rightarrow> panel \<times> store" where
  "addUser admins ui st =
     (if \<not> isAdmin admins (panel_user ui) then (ui, st)
      else if trim (newUserEmail ui) = []
      then (ui\<lparr>panel_message := Some (ErrorMessage EmailRequired)\<rparr>, st)
      else if \<not> emailRegex_test (trim (newUserEmail ui))
      then (ui\<lparr>panel_message := Some (ErrorMessage InvalidEmail)\<rparr>, st)
      else if find (\<lambda>u. toLowerCase (au_email u) = toLowerCase (trim (newUserEmail ui)))
                (allowedUsers ui) \<noteq> None
      then (ui\<lparr>panel_message := Some (ErrorMessage AlreadyAllowed)\<rparr>, st)
      else
        (let emailId = toLowerCase (trim (newUserEmail ui));
             userData =
               (\<lambda>ts. \<lparr>doc_email = Some emailId,
                      doc_displayName =
                        (case String_split CHR ''@'' (trim (newUserEmail ui)) of
                           [] \<Rightarrow> None
                         | w # ws \<Rightarrow> Some w),
                      doc_addedAt = Some ts,
                      doc_addedBy = (case panel_user ui of None \<Rightarrow> None | Some u \<Rightarrow> email u)\<rparr>)
         in case setDoc_allowedUsers emailId userData st of
              (Inl err, st1) \<Rightarrow>
                (ui\<lparr>panel_message := Some (ErrorMessage AddFailed),
                    panel_isSubmitting := False\<rparr>, st1)
            | (Inr ok, st1) \<Rightarrow>
                (ui\<lparr>newUserEmail := [], panel_message := Some (SuccessMessage UserAdded),
                    panel_isSubmitting := False\<rparr>, st1)))"

text \<open>
  \<open>removeUser\<close>: for an admin who confirms, the documents whose \<open>email\<close> field equals the
  lower-cased argument are looked up and each one is deleted; finding none is reported.
\<close>

definition removeUser :: "string list \<Rightarrow> bool \<Rightarrow> string \<Rightarrow> panel \<Rightarrow> store \<Rightarrow> panel \<times> store" where
  "removeUser admins confirmed userEmail ui st =
     (if \<not> isAdmin admins (panel_user ui) then (ui, st)
      else if \<not> confirmed then (ui, st)
      else
        (case getDocs_allowedUsers_where_email (toLowerCase userEmail) st of
           (Inl err, st1) \<Rightarrow>
             (ui\<lparr>panel_message := Some (ErrorMessage RemoveFailed),
                 panel_isSubmitting := False\<rparr>, st1)
         | (Inr found, st1) \<Rightarrow>
             if found = []
             then (ui\<lparr>panel_message := Some (ErrorMessage UserNotInDatabase),
                       panel_isSubmitting := False\<rparr>, st1)
             else
               (case Promise_all_deleteDoc (map fst found) st1 of
                  (Inl err, st2) \<Rightarrow>
                    (ui\<lparr>panel_message := Some (ErrorMessage RemoveFailed),
                        panel_isSubmitting := False\<rparr>, st2)
                | (Inr ok, st2) \<Rightarrow>
                    (ui\<lparr>panel_message := Some (SuccessMessage UserRemoved),
                        panel_isSubmitting := False\<rparr>, st2))))"

text \<open>
  \<open>clearUserData\<close>: for an admin who confirms, all entries whose \<open>userId\<close> is the given
  one are fetched; if there are none this is reported, otherwise they are deleted in one
  write batch.
\<close>

definition clearUserData :: "string list \<Rightarrow> bool \<Rightarrow> string \<Rightarrow> panel \<Rightarrow> store \<Rightarrow> panel \<times> store" where
  "clearUserData admins confirmed userId' ui st =
     (if \<not> isAdmin admins (panel_user ui) then (ui, st)
      else if \<not> confirmed then (ui, st)
      else
        (case getDocs_eggEntries (\<lambda>doc. userId doc = userId') st of
           (Inl err, st1) \<Rightarrow>
             (ui\<lparr>panel_message := Some (ErrorMessage ClearFailed),
                 panel_isSubmitting := False\<rparr>, st1)
         | (Inr found, st1) \<Rightarrow>
             if found = []
             then (ui\<lparr>panel_message := Some (ErrorMessage NoEggData),
                       panel_isSubmitting := False\<rparr>, st1)
             else
               (case batch_commit_eggEntries (map fst found) st1 of
                  (Inl err, st2) \<Rightarrow>
                    (ui\<lparr>panel_message := Some (ErrorMessage ClearFailed),
                        panel_isSubmitting := False\<rparr>, st2)
                | (Inr ok, st2) \<Rightarrow>
                    (ui\<lparr>panel_message := Some (SuccessMessage (DataCleared (length found))),
                        panel_isSubmitting := False\<rparr>, st2))))"

section \<open>Notions used by the properties\<close>

text \<open>
  What the authorization check looks for: a document whose id is the lower-cased e-mail,
  or a document whose \<open>email\<close> field equals the lower-cased e-mail.
\<close>

definition allowlisted :: "store \<Rightarrow> string \<Rightarrow> bool" where
  "allowlisted st e =
     (map_of (coll_allowedUsers st) (toLowerCase e) \<noteq> None \<or>
      list_ex (\<lambda>(key, d). doc_email d = Some (toLowerCase e)) (coll_allowedUsers st))"

text \<open>
  The two lookup strategies in the words of the specification: a lookup by the lower-cased
  e-mail as key, and a match of the stored \<open>email\<close> field that ignores case.
  \<open>exact_field_match\<close> is the match of the stored field, as it is, against the lower-cased
  e-mail. \<open>emails_lower_cased\<close> says that every stored \<open>email\<close> field is in lower case.
\<close>

definition exact_field_match :: "store \<Rightarrow> string \<Rightarrow> bool" where
  "exact_field_match st e =
     list_ex (\<lambda>(key, d). doc_email d = Some (toLowerCase e)) (coll_allowedUsers st)"

definition spec_key_lookup :: "store \<Rightarrow> string \<Rightarrow> bool" where
  "spec_key_lookup st e = (map_of (coll_allowedUsers st) (toLowerCase e) \<noteq> None)"

definition spec_field_match :: "store \<Rightarrow> string \<Rightarrow> bool" where
  "spec_field_match st e =
     list_ex (\<lambda>(key, d). case doc_email d of
                           None \<Rightarrow> False
                         | Some s \<Rightarrow> toLowerCase s = toLowerCase e)
       (coll_allowedUsers st)"

definition emails_lower_cased :: "store \<Rightarrow> bool" where
  "emails_lower_cased st =
     list_all (\<lambda>(key, d). case doc_email d of
                            None \<Rightarrow> True
                          | Some s \<Rightarrow> toLowerCase s = s)
       (coll_allowedUsers st)"

text \<open>
  The editable window in the words of the specification: the thirty days up to now.
\<close>

definition spec_editable_window :: "int \<Rightarrow> int \<Rightarrow> bool" where
  "spec_editable_window now d = (now - 30 * msPerDay \<le> d \<and> d \<le> now)"

text \<open>
  The document \<open>saveEggEntry\<close> writes for user \<open>u\<close>, date \<open>d\<close> and count \<open>n\<close> when
  the server's clock shows \<open>ts\<close>, and the entries of an owner that the store holds for
  the calendar day of \<open>d\<close>: those whose date has the same day number as \<open>d\<close>, whatever
  the time of day.
\<close>

definition entry_doc :: "User \<Rightarrow> int \<Rightarrow> int \<Rightarrow> int \<Rightarrow> EggDoc" where
  "entry_doc u d n ts =
     \<lparr>date = d, count = Some n, userId = uid u,
      userName = (case displayName u of
                    None \<Rightarrow> anonymous_user_name
                  | Some name \<Rightarrow> if name = [] then anonymous_user_name else name),
      createdAt = Some ts, updatedAt = None\<rparr>"

definition entries_on_day :: "string \<Rightarrow> int \<Rightarrow> store \<Rightarrow> (nat \<times> EggDoc) list" where
  "entries_on_day owner d st =
     filter (\<lambda>(key, doc). userId doc = owner \<and> Day (date doc) = Day d) (coll_eggEntries st)"

text \<open>The entries the store holds for an owner.\<close>

definition entries_of :: "string \<Rightarrow> store \<Rightarrow> (nat \<times> EggDoc) list" where
  "entries_of owner st = filter (\<lambda>(key, doc). userId doc = owner) (coll_eggEntries st)"

text \<open>
  The count of a document as the aggregation reads it, the sum of the counts of an owner's
  documents, and the farm total in the words of the specification: the sum of the counts
  of the entries dated in the current calendar year.
\<close>

definition count_or_zero :: "EggDoc \<Rightarrow> int" where
  "count_or_zero d = (case count d of None \<Rightarrow> 0 | Some n \<Rightarrow> n)"

definition user_sum :: "EggDoc list \<Rightarrow> string \<Rightarrow> int" where
  "user_sum docs owner = sum_list (map count_or_zero (filter (\<lambda>d. userId d = owner) docs))"

definition spec_farm_total :: "int \<Rightarrow> store \<Rightarrow> int" where
  "spec_farm_total now st =
     sum_list (map count_or_zero
       (filter (\<lambda>d. getFullYear (date d) = getFullYear now) (map snd (coll_eggEntries st))))"

text \<open>
  The invariant of the loop over a snapshot: after the documents \<open>seen\<close>, the object
  \<open>totals\<close> has one record for each non-empty user id seen, holding that id and the sum
  of the user's counts.
\<close>

definition totals_inv :: "EggDoc list \<Rightarrow> (string \<times> UserTotal) list \<Rightarrow> bool" where
  "totals_inv seen totals \<longleftrightarrow>
     distinct (map fst totals) \<and>
     set (map fst totals) = userId ` set seen - {[]} \<and>
     (\<forall>k u. (k, u) \<in> set totals \<longrightarrow> ut_userId u = k \<and> totalCount u = user_sum seen k)"

section \<open>Example data\<close>

definition example_admins :: "string list" where
  "example_admins = [''Admin@Example.com'']"

definition admin_user :: User where
  "admin_user =
     \<lparr>uid = ''uid-admin'', email = Some ''Admin@Example.com'', displayName = Some ''Admin''\<rparr>"

definition bob :: User where
  "bob = \<lparr>uid = ''uid-bob'', email = Some ''Bob@Example.com'', displayName = Some ''Bob''\<rparr>"

definition shadow_admin :: User where
  "shadow_admin =
     \<lparr>uid = ''uid-shadow'', email = Some ''admin@example.com'', displayName = None\<rparr>"

definition bob_doc :: AllowedUserDoc where
  "bob_doc =
     \<lparr>doc_email = Some ''bob@example.com'', doc_displayName = Some ''bob'',
      doc_addedAt = Some 1000, doc_addedBy = Some ''Admin@Example.com''\<rparr>"

definition empty_store :: store where
  "empty_store =
     \<lparr>coll_allowedUsers = [], coll_eggEntries = [], serverTime = 1000,
      failing = [], calls = []\<rparr>"

definition store_with_bob :: store where
  "store_with_bob = empty_store\<lparr>coll_allowedUsers := [(''bob@example.com'', bob_doc)]\<rparr>"

text \<open>
  Two stores with one older document each, kept under an id that is not the address: in
  the first the \<open>email\<close> field is in lower case, in the second it is spelt as the user
  writes it.
\<close>

definition legacy_store :: store where
  "legacy_store = empty_store\<lparr>coll_allowedUsers := [(''legacy-1'', bob_doc)]\<rparr>"

definition legacy_mixed_store :: store where
  "legacy_mixed_store =
     empty_store\<lparr>coll_allowedUsers :=
       [(''legacy-1'', bob_doc\<lparr>doc_email := Some ''Bob@Example.com''\<rparr>)]\<rparr>"

definition unreachable :: "store \<Rightarrow> store" where
  "unreachable st =
     st\<lparr>failing := [GetDoc, GetDocs, AddDoc, SetDoc, UpdateDoc, DeleteDoc, BatchCommit]\<rparr>"

text \<open>
  Noon on 15 March 2025; an entry of Bob's dated noon on 14 February 2025, 29 days
  earlier; an entry of his dated 10 March 2025, 08:30; and the evening of that day, 20:00.
\<close>

definition mid_march :: int where
  "mid_march = new_Date 2025 2 15 12 0 0 0"

definition feb_entry :: EggEntry where
  "feb_entry =
     \<lparr>entry_id = 1, entry_date = new_Date 2025 1 14 12 0 0 0, entry_count = 3,
      entry_userId = ''uid-bob'', entry_userName = ''Bob''\<rparr>"

definition march_entry :: EggEntry where
  "march_entry =
     \<lparr>entry_id = 2, entry_date = new_Date 2025 2 10 8 30 0 0, entry_count = 4,
      entry_userId = ''uid-bob'', entry_userName = ''Bob''\<rparr>"

definition march_10_evening :: int where
  "march_10_evening = new_Date 2025 2 10 20 0 0 0"

definition doc_of_entry :: "EggEntry \<Rightarrow> nat \<times> EggDoc" where
  "doc_of_entry e =
     (entry_id e,
      \<lparr>date = entry_date e, count = Some (entry_count e), userId = entry_userId e,
       userName = entry_userName e, createdAt = Some (entry_date e), updatedAt = None\<rparr>)"

definition store_with_entries :: store where
  "store_with_entries =
     store_with_bob\<lparr>coll_eggEntries := [doc_of_entry feb_entry, doc_of_entry march_entry]\<rparr>"

definition bob_form :: tracker where
  "bob_form =
     \<lparr>user = Some bob, eggCount = 0, selectedDate = Some mid_march,
      eggEntries = [march_entry, feb_entry], errorMessage = None, successMessage = None,
      editEntry = None, isSubmitting = False\<rparr>"

text \<open>
  An entry of Alice's next to Bob's two, and the panel of the signed-in admin with
  a new address typed into the e-mail field.
\<close>

definition alice_entry :: EggEntry where
  "alice_entry =
     \<lparr>entry_id = 3, entry_date = new_Date 2025 2 12 9 0 0 0, entry_count = 5,
      entry_userId = ''uid-alice'', entry_userName = ''Alice''\<rparr>"

definition store_two_owners :: store where
  "store_two_owners =
     store_with_bob\<lparr>coll_eggEntries :=
       [doc_of_entry feb_entry, doc_of_entry alice_entry, doc_of_entry march_entry]\<rparr>"

definition admin_panel :: panel where
  "admin_panel =
     \<lparr>panel_user = Some admin_user,
      allowedUsers = allowedUsers_onSnapshot 2000 (coll_allowedUsers store_with_bob),
      newUserEmail = ''Alice@Example.com'', panel_isSubmitting = False,
      panel_message = None\<rparr>"

text \<open>
  A snapshot of three entries of three owners with counts 3, 5 and 2; a store whose only
  entry is dated half a second before the end of 2025 (the form was opened at that
  instant and saved half a minute later); and 23:00 on 31 December 2025, a time at which a
  page showing the statistics is loaded.
\<close>

definition snapshot_3_5_2 :: "EggDoc list" where
  "snapshot_3_5_2 =
     [\<lparr>date = new_Date 2025 2 12 9 0 0 0, count = Some 3, userId = ''uid-alice'',
       userName = ''Alice'', createdAt = None, updatedAt = None\<rparr>,
      \<lparr>date = new_Date 2025 2 11 9 0 0 0, count = Some 5, userId = ''uid-bob'',
       userName = ''Bob'', createdAt = None, updatedAt = None\<rparr>,
      \<lparr>date = new_Date 2025 2 10 9 0 0 0, count = Some 2, userId = ''uid-carol'',
       userName = ''Carol'', createdAt = None, updatedAt = None\<rparr>]"

definition last_second_entry :: EggDoc where
  "last_second_entry =
     \<lparr>date = new_Date 2025 11 31 23 59 59 500, count = Some 5, userId = ''uid-bob'',
      userName = ''Bob'', createdAt = Some (new_Date 2026 0 1 0 0 30 0),
      updatedAt = None\<rparr>"

definition new_years_eve :: int where
  "new_years_eve = new_Date 2025 11 31 23 0 0 0"

definition store_last_second :: store where
  "store_last_second = empty_store\<lparr>coll_eggEntries := [(1, last_second_entry)]\<rparr>"

section \<open>Facts about strings\<close>

lemma lower_char_idem: "lower_char (lower_char c) = lower_char c"
  by (simp add: lower_char_def)

lemma toLowerCase_idem: "toLowerCase (toLowerCase s) = toLowerCase s"
  by (simp add: toLowerCase_def lower_char_idem)

lemmas example_defs = example_admins_def admin_user_def bob_def shadow_admin_def bob_doc_def
  empty_store_def store_with_bob_def unreachable_def legacy_store_def legacy_mixed_store_def

lemmas auth_defs = isUserAllowed_def isUserAllowed_try_def isAdmin_def getDoc_allowedUsers_def
  getDocs_allowedUsers_where_email_def request_def refuses_def

lemmas string_defs = toLowerCase_def lower_char_def

section \<open>Properties of the authorization check\<close>

text \<open>
  With the store answering, the \<open>try\<close> block of \<open>isUserAllowed\<close> returns whether one of
  its two lookups finds a document.
\<close>

lemma isUserAllowed_try_reachable:
  assumes "\<not> refuses st GetDoc" and "\<not> refuses st GetDocs"
  shows "fst (isUserAllowed_try e st) = Inr (allowlisted st e)"
  using assms
  by (auto simp: isUserAllowed_try_def getDoc_allowedUsers_def
      getDocs_allowedUsers_where_email_def allowlisted_def request_def refuses_def
      list_ex_iff filter_empty_conv Let_def split: option.splits)

lemma allowlisted_spec:
  "emails_lower_cased st \<longrightarrow>
     (allowlisted st e \<longleftrightarrow> spec_key_lookup st e \<or> spec_field_match st e)"
  unfolding allowlisted_def spec_key_lookup_def spec_field_match_def emails_lower_cased_def
    list_ex_iff list_all_iff
  by (fastforce simp: toLowerCase_idem split: option.splits)

text \<open>
  Claim C1, as amended. When the allow-list lookup fails (the store refuses the lookup by
  key, or finds no document under the key and refuses the query on the \<open>email\<close> field),
  \<open>isUserAllowed\<close> returns \<open>false\<close> for every identity that is not an admin: access is
  denied. The error ends at the \<open>catch\<close> clause; the caller gets the boolean.
\<close>

theorem isUserAllowed_fails_closed:
  assumes "\<not> isAdmin admins (Some u)" and "email u = Some e"
    and "refuses st GetDoc \<or>
         map_of (coll_allowedUsers st) (toLowerCase e) = None \<and> refuses st GetDocs"
  shows "fst (isUserAllowed_try e st) = Inl StoreUnavailable \<and>
         fst (isUserAllowed admins (Some u) st) = False"
  using assms
  by (auto simp: isUserAllowed_def isUserAllowed_try_def getDoc_allowedUsers_def
      getDocs_allowedUsers_where_email_def request_def refuses_def Let_def isAdmin_def
      split: option.splits if_splits)

theorem isUserAllowed_fails_closed_witness:
  "\<not> isAdmin example_admins (Some bob) \<and> email bob = Some ''Bob@Example.com'' \<and>
   refuses (unreachable store_with_bob) GetDoc \<and>
   allowlisted store_with_bob ''Bob@Example.com'' \<and>
   fst (isUserAllowed_try ''Bob@Example.com'' (unreachable store_with_bob))
     = Inl StoreUnavailable \<and>
   fst (isUserAllowed example_admins (Some bob) (unreachable store_with_bob)) = False"
proof -
  have h1: "\<not> isAdmin example_admins (Some bob)"
    by (simp add: example_defs isAdmin_def)
  have h2: "email bob = Some ''Bob@Example.com''"
    by (simp add: bob_def)
  have h3: "refuses (unreachable store_with_bob) GetDoc"
    by (simp add: example_defs refuses_def)
  have h4: "allowlisted store_with_bob ''Bob@Example.com''"
    by (simp add: example_defs allowlisted_def string_defs)
  from isUserAllowed_fails_closed [OF h1 h2 disjI1 [OF h3]] h1 h2 h3 h4
  show ?thesis by blast
qed

text \<open>
  Claim C1 as stated does not hold: the failure cannot be told from an ordinary denial.
  For Bob, who is not an admin, the lookup against an unreachable store ends in an error
  and the lookup against a reachable store with an empty allow-list ends in "not found",
  and \<open>isUserAllowed\<close> returns the same value in both cases.
\<close>

theorem isUserAllowed_failure_not_distinguishable:
  "fst (isUserAllowed_try ''Bob@Example.com'' (unreachable store_with_bob))
     = Inl StoreUnavailable \<and>
   fst (isUserAllowed_try ''Bob@Example.com'' empty_store) = Inr False \<and>
   fst (isUserAllowed example_admins (Some bob) (unreachable store_with_bob))
     = fst (isUserAllowed example_admins (Some bob) empty_store)"
  by (simp add: example_defs auth_defs string_defs)

text \<open>
  Claim C2. An identity whose e-mail (a non-empty string) is a member of the configured
  admin list is an admin and is granted access, whatever the allow-list holds and whatever
  the store answers, and no request is sent to the store: the store, with its trace of
  requests, is returned as it was.
\<close>

theorem isUserAllowed_admin:
  assumes "email u = Some e" and "e \<noteq> []" and "e \<in> set admins"
  shows "isAdmin admins (Some u) \<and> isUserAllowed admins (Some u) st = (True, st)"
  using assms by (simp add: isUserAllowed_def isAdmin_def)

theorem isUserAllowed_admin_witness:
  "email admin_user = Some ''Admin@Example.com'' \<and> ''Admin@Example.com'' \<noteq> [] \<and>
   ''Admin@Example.com'' \<in> set example_admins \<and>
   isAdmin example_admins (Some admin_user) \<and>
   isUserAllowed example_admins (Some admin_user) (unreachable store_with_bob)
     = (True, unreachable store_with_bob) \<and>
   isUserAllowed example_admins (Some admin_user) empty_store = (True, empty_store)"
proof -
  have h1: "email admin_user = Some ''Admin@Example.com''"
    by (simp add: admin_user_def)
  have h2: "''Admin@Example.com'' \<noteq> []"
    by simp
  have h3: "''Admin@Example.com'' \<in> set example_admins"
    by (simp add: example_admins_def)
  from isUserAllowed_admin [OF h1 h2 h3, of "unreachable store_with_bob"]
    isUserAllowed_admin [OF h1 h2 h3, of empty_store] h1 h2 h3
  show ?thesis by blast
qed

text \<open>
  Claim C3 as stated does not hold: the fallback does not ignore the case of the stored
  field. With an older document whose \<open>email\<close> field is Bob@Example.com, the stored
  field matches the e-mail of the identity Bob@Example.com when case is ignored (they are
  the same string), yet the query asks for documents whose field equals
  bob@example.com, finds none, and access is denied.
\<close>

theorem stored_mixed_case_is_not_matched:
  "\<not> isAdmin example_admins (Some bob) \<and> email bob = Some ''Bob@Example.com'' \<and>
   \<not> refuses legacy_mixed_store GetDoc \<and> \<not> refuses legacy_mixed_store GetDocs \<and>
   spec_field_match legacy_mixed_store ''Bob@Example.com'' \<and>
   fst (isUserAllowed example_admins (Some bob) legacy_mixed_store) = False"
  by (simp add: example_defs auth_defs string_defs spec_field_match_def)

text \<open>
  Claim C3, as amended. For an identity that is not an admin, with the store answering,
  access is granted if and only if the lookup by the lower-cased e-mail as key finds a
  document, or some document's stored \<open>email\<close> field equals the lower-cased e-mail; the
  sign-in address is lower-cased, the stored field is compared as it is. So an identity
  signing in as Bob@Example.com matches an entry added as bob@example.com. When every
  stored \<open>email\<close> field is in lower case, the fallback is the match that ignores case.
\<close>

theorem isUserAllowed_iff_listed:
  assumes "\<not> isAdmin admins (Some u)" and "email u = Some e" and "e \<noteq> []"
    and "\<not> refuses st GetDoc" and "\<not> refuses st GetDocs"
  shows "(fst (isUserAllowed admins (Some u) st) \<longleftrightarrow>
            spec_key_lookup st e \<or> exact_field_match st e) \<and>
         (emails_lower_cased st \<longrightarrow>
            (fst (isUserAllowed admins (Some u) st) \<longleftrightarrow>
               spec_key_lookup st e \<or> spec_field_match st e))"
proof -
  have "fst (isUserAllowed_try e st) = Inr (allowlisted st e)"
    using assms(4,5) by (rule isUserAllowed_try_reachable)
  then have eq: "fst (isUserAllowed admins (Some u) st) = allowlisted st e"
    using assms(1,2,3) by (auto simp: isUserAllowed_def split: prod.splits sum.splits)
  have "allowlisted st e \<longleftrightarrow> spec_key_lookup st e \<or> exact_field_match st e"
    by (simp add: allowlisted_def spec_key_lookup_def exact_field_match_def)
  with eq allowlisted_spec [of st e] show ?thesis
    by simp
qed

theorem isUserAllowed_iff_listed_witness:
  "\<not> isAdmin example_admins (Some bob) \<and> email bob = Some ''Bob@Example.com'' \<and>
   ''Bob@Example.com'' \<noteq> [] \<and>
   \<not> refuses store_with_bob GetDoc \<and> \<not> refuses store_with_bob GetDocs \<and>
   spec_key_lookup store_with_bob ''Bob@Example.com'' \<and>
   fst (isUserAllowed example_admins (Some bob) store_with_bob) \<and>
   \<not> refuses legacy_store GetDoc \<and> \<not> refuses legacy_store GetDocs \<and>
   \<not> spec_key_lookup legacy_store ''Bob@Example.com'' \<and>
   exact_field_match legacy_store ''Bob@Example.com'' \<and>
   emails_lower_cased legacy_store \<and>
   spec_field_match legacy_store ''Bob@Example.com'' \<and>
   fst (isUserAllowed example_admins (Some bob) legacy_store) \<and>
   \<not> refuses empty_store GetDoc \<and> \<not> refuses empty_store GetDocs \<and>
   \<not> spec_key_lookup empty_store ''Bob@Example.com'' \<and>
   \<not> exact_field_match empty_store ''Bob@Example.com'' \<and>
   \<not> fst (isUserAllowed example_admins (Some bob) empty_store)"
proof -
  have h1: "\<not> isAdmin example_admins (Some bob)"
    by (simp add: example_defs isAdmin_def)
  have h2: "email bob = Some ''Bob@Example.com''"
    by (simp add: bob_def)
  have h3: "''Bob@Example.com'' \<noteq> []"
    by simp
  have k4: "\<not> refuses store_with_bob GetDoc" and k5: "\<not> refuses store_with_bob GetDocs"
    and l4: "\<not> refuses legacy_store GetDoc" and l5: "\<not> refuses legacy_store GetDocs"
    and n4: "\<not> refuses empty_store GetDoc" and n5: "\<not> refuses empty_store GetDocs"
    by (simp_all add: example_defs refuses_def)
  have k6: "spec_key_lookup store_with_bob ''Bob@Example.com''"
    by (simp add: example_defs spec_key_lookup_def string_defs)
  have l6: "\<not> spec_key_lookup legacy_store ''Bob@Example.com''"
    by (simp add: example_defs spec_key_lookup_def string_defs)
  have l7: "exact_field_match legacy_store ''Bob@Example.com''"
    by (simp add: example_defs exact_field_match_def string_defs)
  have l8: "emails_lower_cased legacy_store"
    by (simp add: example_defs emails_lower_cased_def string_defs)
  have n6: "\<not> spec_key_lookup empty_store ''Bob@Example.com''"
    by (simp add: example_defs spec_key_lookup_def)
  have n7: "\<not> exact_field_match empty_store ''Bob@Example.com''"
    by (simp add: example_defs exact_field_match_def)
  note k = isUserAllowed_iff_listed [OF h1 h2 h3 k4 k5]
  note l = isUserAllowed_iff_listed [OF h1 h2 h3 l4 l5]
  note n = isUserAllowed_iff_listed [OF h1 h2 h3 n4 n5]
  from k k6 have r1: "fst (isUserAllowed example_admins (Some bob) store_with_bob)"
    by blast
  from l l7 have r2: "fst (isUserAllowed example_admins (Some bob) legacy_store)"
    by blast
  from l l8 r2 l6 have r3: "spec_field_match legacy_store ''Bob@Example.com''"
    by blast
  from n n6 n7 have r4: "\<not> fst (isUserAllowed example_admins (Some bob) empty_store)"
    by blast
  from h1 h2 h3 k4 k5 k6 r1 l4 l5 l6 l7 l8 r3 r2 n4 n5 n6 n7 r4 show ?thesis
    by blast
qed

text \<open>
  The scenario from its start: the admin adds bob@example.com to an empty allow-list,
  which writes the document with that id and that \<open>email\<close> field, and the identity
  Bob@Example.com is then granted access.
\<close>

lemma added_user_signs_in_mixed_case:
  "coll_allowedUsers
     (snd (addUser example_admins
             (admin_panel\<lparr>allowedUsers := [], newUserEmail := ''bob@example.com''\<rparr>)
             empty_store))
     = [(''bob@example.com'',
         \<lparr>doc_email = Some ''bob@example.com'', doc_displayName = Some ''bob'',
          doc_addedAt = Some 1000, doc_addedBy = Some ''Admin@Example.com''\<rparr>)] \<and>
   fst (isUserAllowed example_admins (Some bob)
          (snd (addUser example_admins
                  (admin_panel\<lparr>allowedUsers := [], newUserEmail := ''bob@example.com''\<rparr>)
                  empty_store)))"
  by code_simp

text \<open>
  Claim C10. Membership in the admin list is exact string equality. An identity whose
  e-mail is not itself a configured admin e-mail, though it equals one up to the case of
  its letters, is not an admin; if it is also absent from the allow-list, access is
  denied.
\<close>

theorem isAdmin_is_case_sensitive:
  assumes "email u = Some e"
    and "a \<in> set admins" and "toLowerCase a = toLowerCase e" and "e \<notin> set admins"
    and "\<not> allowlisted st e"
  shows "\<not> isAdmin admins (Some u) \<and> fst (isUserAllowed admins (Some u) st) = False"
  using assms
  by (auto simp: isUserAllowed_def isUserAllowed_try_def getDoc_allowedUsers_def
      getDocs_allowedUsers_where_email_def request_def Let_def isAdmin_def allowlisted_def
      list_ex_iff filter_empty_conv
      split: option.splits if_splits)

theorem isAdmin_is_case_sensitive_witness:
  "email shadow_admin = Some ''admin@example.com'' \<and>
   ''Admin@Example.com'' \<in> set example_admins \<and>
   toLowerCase ''Admin@Example.com'' = toLowerCase ''admin@example.com'' \<and>
   ''admin@example.com'' \<notin> set example_admins \<and>
   \<not> allowlisted store_with_bob ''admin@example.com'' \<and>
   \<not> isAdmin example_admins (Some shadow_admin) \<and>
   fst (isUserAllowed example_admins (Some shadow_admin) store_with_bob) = False"
proof -
  have h1: "email shadow_admin = Some ''admin@example.com''"
    by (simp add: shadow_admin_def)
  have h2: "''Admin@Example.com'' \<in> set example_admins"
    by (simp add: example_admins_def)
  have h3: "toLowerCase ''Admin@Example.com'' = toLowerCase ''admin@example.com''"
    by (simp add: string_defs)
  have h4: "''admin@example.com'' \<notin> set example_admins"
    by (simp add: example_admins_def)
  have h5: "\<not> allowlisted store_with_bob ''admin@example.com''"
    by (simp add: example_defs allowlisted_def string_defs)
  from isAdmin_is_case_sensitive [OF h1 h2 h3 h4 h5] h1 h2 h3 h4 h5
  show ?thesis by blast
qed

section \<open>Facts about dates\<close>

lemma int_div_lower: "(n::int) > 0 \<Longrightarrow> n * (x div n) \<le> x"
proof -
  assume n: "n > 0"
  have "x = n * (x div n) + x mod n" by simp
  moreover have "0 \<le> x mod n" using n by simp
  ultimately show ?thesis by linarith
qed

lemma int_div_upper: "(n::int) > 0 \<Longrightarrow> x < n * (x div n) + n"
proof -
  assume n: "n > 0"
  have "x = n * (x div n) + x mod n" by simp
  moreover have "x mod n < n" using n by simp
  ultimately show ?thesis by linarith
qed

text \<open>
  The first day of year \<open>y\<close> is within two days of \<open>365.2425 * (y - 1970)\<close>.
\<close>

lemma DayFromYear_bounds:
  "146097 * y - 287811697 < 400 * DayFromYear y"
  "400 * DayFromYear y < 146097 * y - 287810497"
proof -
  define a where "a = (y - 1969) div 4"
  define b where "b = (y - 1901) div 100"
  define c where "c = (y - 1601) div 400"
  have a: "4 * a \<le> y - 1969" "y - 1969 < 4 * a + 4"
    unfolding a_def using int_div_lower [of 4 "y - 1969"] int_div_upper [of 4 "y - 1969"] by simp_all
  have b: "100 * b \<le> y - 1901" "y - 1901 < 100 * b + 100"
    unfolding b_def using int_div_lower [of 100 "y - 1901"] int_div_upper [of 100 "y - 1901"] by simp_all
  have c: "400 * c \<le> y - 1601" "y - 1601 < 400 * c + 400"
    unfolding c_def using int_div_lower [of 400 "y - 1601"] int_div_upper [of 400 "y - 1601"] by simp_all
  have D: "DayFromYear y = 365 * y - 719050 + a - b + c"
    by (simp add: DayFromYear_def a_def b_def c_def)
  have D400: "400 * DayFromYear y = 146000 * y - 287620000 + 400 * a - 400 * b + 400 * c"
    by (simp add: D)
  show "146097 * y - 287811697 < 400 * DayFromYear y"
    unfolding D400 using a b c by linarith
  show "400 * DayFromYear y < 146097 * y - 287810497"
    unfolding D400 using a b c by linarith
qed

text \<open>
  \<open>YearFromTime\<close> returns the year in which the day of \<open>t\<close> lies: the estimate is off by
  at most one year, which the two comparisons correct.
\<close>

lemma YearFromTime_correct:
  "DayFromYear (YearFromTime t) \<le> Day t \<and> Day t < DayFromYear (YearFromTime t + 1)"
proof -
  define d where "d = Day t"
  define y where "y = 1970 + (d * 400) div 146097"
  define q where "q = (d * 400) div 146097"
  have q: "146097 * q \<le> 400 * d" "400 * d < 146097 * q + 146097"
    unfolding q_def using int_div_lower [of 146097 "d * 400"] int_div_upper [of 146097 "d * 400"]
    by simp_all
  have yq: "y = q + 1970" by (simp add: y_def q_def)
  define y2 where "y2 = y + 2"
  define y1 where "y1 = y - 1"
  have up: "d < DayFromYear (y + 2)"
  proof -
    have "y2 = q + 1972" by (simp add: y2_def yq)
    with DayFromYear_bounds(1) [of y2] q have "d < DayFromYear y2" by linarith
    then show ?thesis by (simp add: y2_def)
  qed
  have down: "DayFromYear (y - 1) \<le> d"
  proof -
    have "y1 = q + 1969" by (simp add: y1_def yq)
    with DayFromYear_bounds(2) [of y1] q have "DayFromYear y1 \<le> d" by linarith
    then show ?thesis by (simp add: y1_def)
  qed
  have res: "YearFromTime t =
     (if DayFromYear (y + 1) \<le> d then y + 1 else if d < DayFromYear y then y - 1 else y)"
    by (simp add: YearFromTime_def d_def y_def Let_def)
  have two: "y + 1 + 1 = y + 2" by simp
  show ?thesis
    unfolding res d_def [symmetric] using up down
    by (auto simp: two)
qed


text \<open>
  The instants from \<open>startOfDay d\<close> to \<open>endOfDay d\<close> are exactly the instants of the
  calendar day of \<open>d\<close>.
\<close>

lemma day_window: "startOfDay d \<le> t \<and> t \<le> endOfDay d \<longleftrightarrow> Day t = Day d"
proof -
  define q where "q = d div 86400000"
  define r where "r = t div 86400000"
  have r: "86400000 * r \<le> t" "t < 86400000 * r + 86400000"
    unfolding r_def using int_div_lower [of 86400000 t] int_div_upper [of 86400000 t]
    by simp_all
  have s: "startOfDay d = 86400000 * q" and e: "endOfDay d = 86400000 * q + 86399999"
    by (simp_all add: startOfDay_def endOfDay_def setHours_def MakeDate_def MakeTime_def
        Day_def msPerDay_def q_def)
  have "86400000 * q \<le> t \<and> t \<le> 86400000 * q + 86399999 \<longleftrightarrow> r = q"
  proof
    assume "86400000 * q \<le> t \<and> t \<le> 86400000 * q + 86399999"
    with r show "r = q" by linarith
  next
    assume "r = q"
    with r show "86400000 * q \<le> t \<and> t \<le> 86400000 * q + 86399999" by simp
  qed
  then show ?thesis
    by (simp add: s e Day_def msPerDay_def q_def r_def)
qed

section \<open>Properties of the entry form\<close>

lemmas date_defs = getMaxAllowedDate_def startOfDay_def endOfDay_def new_Date_def setMonth_def
  setHours_def getMonth_def getFullYear_def MakeDate_def MakeDay_def MakeTime_def
  DateFromTime_def MonthFromTime_def month_starts_def DayWithinYear_def YearFromTime_def
  DayFromYear_def DaysInYear_def TimeWithinDay_def Day_def msPerDay_def Let_def

lemmas tracker_example_defs = mid_march_def feb_entry_def march_entry_def doc_of_entry_def
  store_with_entries_def bob_form_def

lemma fold_max_ge: "(a::nat) \<le> fold max xs a"
  by (induction xs arbitrary: a) (auto intro: order_trans [OF max.cobounded2])

lemma fold_max_mem: "(x::nat) \<in> set xs \<Longrightarrow> x \<le> fold max xs a"
proof (induction xs arbitrary: a)
  case Nil
  then show ?case by simp
next
  case (Cons y ys)
  show ?case
  proof (cases "x = y")
    case True
    have "y \<le> max y a" by simp
    also have "\<dots> \<le> fold max ys (max y a)" by (rule fold_max_ge)
    finally show ?thesis using True by simp
  next
    case False
    with Cons show ?thesis by simp
  qed
qed

text \<open>The id the store gives a new entry is not the id of an entry it holds.\<close>

lemma fresh_id_fresh: "fresh_id docs \<notin> fst ` set docs"
proof
  assume "fresh_id docs \<in> fst ` set docs"
  then have "fresh_id docs \<in> set (map fst docs)" by simp
  then have "fresh_id docs \<le> fold max (map fst docs) 0" by (rule fold_max_mem)
  then show False by (simp add: fresh_id_def)
qed

text \<open>One month before noon on 15 March 2025 is noon on 15 February 2025.\<close>

lemma getMaxAllowedDate_mid_march: "getMaxAllowedDate mid_march = new_Date 2025 1 15 12 0 0 0"
  by (simp add: mid_march_def date_defs)

text \<open>
  One month before 31 March 2025 is "31 February", which the calendar carries over to
  3 March 2025: on that day the window is 28 days long.
\<close>

lemma getMaxAllowedDate_end_of_march:
  "getMaxAllowedDate (new_Date 2025 2 31 12 0 0 0) = new_Date 2025 2 3 12 0 0 0"
  by (simp add: date_defs)

text \<open>
  Claim C4 as stated does not hold. At noon on 15 March 2025 Bob's entry dated noon on
  14 February 2025 is 29 days old, inside a window of thirty days, and both the edit and
  the delete of it are refused: the limit is 15 February, one calendar month back.
\<close>

theorem edit_window_is_not_thirty_days:
  "spec_editable_window mid_march (entry_date feb_entry) \<and>
   find (\<lambda>e. entry_id e = entry_id feb_entry) (eggEntries bob_form) = Some feb_entry \<and>
   handleEdit mid_march feb_entry bob_form
     = bob_form\<lparr>errorMessage := Some EditWindowClosed\<rparr> \<and>
   handleDelete mid_march True (entry_id feb_entry) bob_form store_with_entries
     = (bob_form\<lparr>errorMessage := Some DeleteWindowClosed\<rparr>, store_with_entries)"
  by (simp add: spec_editable_window_def handleEdit_def handleDelete_def tracker_example_defs
      date_defs)

text \<open>
  Claim C4, as amended. For an entry among the user's loaded entries, the edit and the
  delete are refused, with a message and without any request to the store, exactly when
  the entry's date is earlier than \<open>getMaxAllowedDate()\<close>, the current instant with its
  month set one back. Otherwise \<open>handleEdit\<close> loads the entry into the form, from where
  saving a valid form sends the update to the store, and \<open>handleDelete\<close>, once the user
  confirms, sends the deletion of the entry's document.
\<close>

theorem edit_window_is_one_month:
  assumes "find (\<lambda>e. entry_id e = entry_id entry) (eggEntries ui) = Some entry"
  shows "(entry_date entry < getMaxAllowedDate now \<longrightarrow>
            handleEdit now entry ui = ui\<lparr>errorMessage := Some EditWindowClosed\<rparr> \<and>
            handleDelete now confirmed (entry_id entry) ui st
              = (ui\<lparr>errorMessage := Some DeleteWindowClosed\<rparr>, st)) \<and>
         (\<not> entry_date entry < getMaxAllowedDate now \<longrightarrow>
            editEntry (handleEdit now entry ui) = Some entry \<and>
            (user ui \<noteq> None \<and> 0 < entry_count entry \<and> entry_count entry \<le> 100 \<and>
             startOfDay (entry_date entry) \<le> startOfDay now \<longrightarrow>
               calls (snd (saveEggEntry now (handleEdit now entry ui) st))
                 = calls st @ [UpdateDoc]) \<and>
            (confirmed \<and> \<not> refuses st DeleteDoc \<longrightarrow>
               snd (handleDelete now confirmed (entry_id entry) ui st)
                 = request DeleteDoc
                     (st\<lparr>coll_eggEntries :=
                           filter (\<lambda>(k, d). k \<noteq> entry_id entry) (coll_eggEntries st)\<rparr>))) \<and>
         getMaxAllowedDate now
           = MakeDate (MakeDay (YearFromTime now) (MonthFromTime now - 1) (DateFromTime now))
               (TimeWithinDay now)"
  using assms
  by (auto simp: handleEdit_def handleDelete_def saveEggEntry_def deleteDoc_eggEntries_def
      updateDoc_eggEntries_def request_def Let_def getMaxAllowedDate_def setMonth_def
      getMonth_def split: option.splits)

theorem edit_window_is_one_month_witness:
  "find (\<lambda>e. entry_id e = entry_id feb_entry) (eggEntries bob_form) = Some feb_entry \<and>
   entry_date feb_entry < getMaxAllowedDate mid_march \<and>
   handleDelete mid_march True (entry_id feb_entry) bob_form store_with_entries
     = (bob_form\<lparr>errorMessage := Some DeleteWindowClosed\<rparr>, store_with_entries) \<and>
   find (\<lambda>e. entry_id e = entry_id march_entry) (eggEntries bob_form) = Some march_entry \<and>
   \<not> entry_date march_entry < getMaxAllowedDate mid_march \<and>
   user bob_form \<noteq> None \<and> 0 < entry_count march_entry \<and> entry_count march_entry \<le> 100 \<and>
   startOfDay (entry_date march_entry) \<le> startOfDay mid_march \<and>
   \<not> refuses store_with_entries DeleteDoc \<and>
   editEntry (handleEdit mid_march march_entry bob_form) = Some march_entry \<and>
   calls (snd (saveEggEntry mid_march (handleEdit mid_march march_entry bob_form)
                 store_with_entries)) = [UpdateDoc] \<and>
   coll_eggEntries (snd (handleDelete mid_march True (entry_id march_entry) bob_form
                           store_with_entries)) = [doc_of_entry feb_entry]"
proof -
  have f1: "find (\<lambda>e. entry_id e = entry_id feb_entry) (eggEntries bob_form) = Some feb_entry"
    by (simp add: tracker_example_defs)
  have f2: "entry_date feb_entry < getMaxAllowedDate mid_march"
    by (simp add: tracker_example_defs date_defs)
  have m1: "find (\<lambda>e. entry_id e = entry_id march_entry) (eggEntries bob_form)
              = Some march_entry"
    by (simp add: tracker_example_defs)
  have m2: "\<not> entry_date march_entry < getMaxAllowedDate mid_march"
    by (simp add: tracker_example_defs date_defs)
  have m3: "user bob_form \<noteq> None \<and> 0 < entry_count march_entry \<and>
            entry_count march_entry \<le> 100"
    by (simp add: tracker_example_defs)
  have m4: "startOfDay (entry_date march_entry) \<le> startOfDay mid_march"
    by (simp add: tracker_example_defs date_defs)
  have m5: "\<not> refuses store_with_entries DeleteDoc"
    by (simp add: tracker_example_defs example_defs refuses_def)
  have c0: "calls store_with_entries = []"
    by (simp add: tracker_example_defs example_defs)
  have c1: "filter (\<lambda>(k, d). k \<noteq> entry_id march_entry) (coll_eggEntries store_with_entries)
              = [doc_of_entry feb_entry]"
    by (simp add: tracker_example_defs)
  note a = edit_window_is_one_month [OF f1, of mid_march True store_with_entries]
  note b = edit_window_is_one_month [OF m1, of mid_march True store_with_entries]
  from a f2 have r1: "handleDelete mid_march True (entry_id feb_entry) bob_form store_with_entries
     = (bob_form\<lparr>errorMessage := Some DeleteWindowClosed\<rparr>, store_with_entries)"
    by blast
  from b m2 have r2: "editEntry (handleEdit mid_march march_entry bob_form) = Some march_entry"
    by blast
  from b m2 m3 m4 c0
  have r3: "calls (snd (saveEggEntry mid_march (handleEdit mid_march march_entry bob_form)
                 store_with_entries)) = [UpdateDoc]"
    by simp
  from b m2 m5 c1
  have r4: "coll_eggEntries (snd (handleDelete mid_march True (entry_id march_entry) bob_form
                           store_with_entries)) = [doc_of_entry feb_entry]"
    by (simp add: request_def)
  from f1 f2 r1 m1 m2 m3 m4 m5 r2 r3 r4 show ?thesis
    by blast
qed

text \<open>
  Claim C5. Creating an entry (a valid form, no entry under edit, the store answering)
  asks the store for the user's entries of the selected calendar day: the query from the
  start to the end of the day returns exactly the user's entries dated on that day, at
  any time of it. If there is one, nothing is written, the only request is that query,
  and the user is told of the duplicate. If there is none, one document is added under a
  new id, with the form's date and count, the user's id and name, and \<open>createdAt\<close> set by
  the server; the requests are the query and the insertion. The helper
  \<open>hasExistingEntryForDate\<close>, given the bounds of the day, answers the same question.
\<close>

theorem saveEggEntry_create:
  assumes "user ui = Some u" and "0 < eggCount ui" and "eggCount ui \<le> 100"
    and "selectedDate ui = Some d" and "startOfDay d \<le> startOfDay now"
    and "editEntry ui = None"
    and "\<not> refuses st GetDocs" and "\<not> refuses st AddDoc"
  shows "(entries_on_day (uid u) d st \<noteq> [] \<longrightarrow>
            snd (saveEggEntry now ui st) = request GetDocs st \<and>
            errorMessage (fst (saveEggEntry now ui st)) = Some DuplicateEntry) \<and>
         (entries_on_day (uid u) d st = [] \<longrightarrow>
            coll_eggEntries (snd (saveEggEntry now ui st)) =
              coll_eggEntries st @
                [(fresh_id (coll_eggEntries st), entry_doc u d (eggCount ui) (serverTime st))] \<and>
            fresh_id (coll_eggEntries st) \<notin> fst ` set (coll_eggEntries st) \<and>
            calls (snd (saveEggEntry now ui st)) = calls st @ [GetDocs, AddDoc] \<and>
            successMessage (fst (saveEggEntry now ui st)) = Some EntrySaved) \<and>
         fst (getDocs_eggEntries
                (\<lambda>doc. userId doc = uid u \<and> startOfDay d \<le> date doc \<and> date doc \<le> endOfDay d)
                st) = Inr (entries_on_day (uid u) d st) \<and>
         fst (hasExistingEntryForDate (\<lambda>t. Some (startOfDay t)) (\<lambda>t. Some (endOfDay t))
                (uid u) d st) = Inr (entries_on_day (uid u) d st \<noteq> [])"
proof -
  have q: "filter (\<lambda>(key, doc). userId doc = uid u \<and> startOfDay d \<le> date doc \<and>
                      date doc \<le> endOfDay d) (coll_eggEntries st)
             = entries_on_day (uid u) d st"
    unfolding entries_on_day_def
    by (rule filter_cong [OF refl]) (auto simp: day_window)
  show ?thesis
    using assms fresh_id_fresh [of "coll_eggEntries st"] q
    by (auto simp: saveEggEntry_def getDocs_eggEntries_def addDoc_eggEntries_def
        hasExistingEntryForDate_def entry_doc_def request_def refuses_def Let_def)
qed

theorem saveEggEntry_create_witness:
  "user (bob_form\<lparr>eggCount := 5\<rparr>) = Some bob \<and>
   selectedDate (bob_form\<lparr>eggCount := 5\<rparr>) = Some mid_march \<and>
   startOfDay mid_march \<le> startOfDay mid_march \<and>
   editEntry (bob_form\<lparr>eggCount := 5\<rparr>) = None \<and>
   \<not> refuses store_with_entries GetDocs \<and> \<not> refuses store_with_entries AddDoc \<and>
   entries_on_day (uid bob) mid_march store_with_entries = [] \<and>
   coll_eggEntries (snd (saveEggEntry mid_march (bob_form\<lparr>eggCount := 5\<rparr>) store_with_entries))
     = [doc_of_entry feb_entry, doc_of_entry march_entry,
        (3, entry_doc bob mid_march 5 1000)] \<and>
   march_10_evening \<noteq> entry_date march_entry \<and>
   startOfDay march_10_evening \<le> startOfDay mid_march \<and>
   entries_on_day (uid bob) march_10_evening store_with_entries = [doc_of_entry march_entry] \<and>
   snd (saveEggEntry mid_march
          (bob_form\<lparr>eggCount := 5, selectedDate := Some march_10_evening\<rparr>)
          store_with_entries) = request GetDocs store_with_entries \<and>
   errorMessage (fst (saveEggEntry mid_march
          (bob_form\<lparr>eggCount := 5, selectedDate := Some march_10_evening\<rparr>)
          store_with_entries)) = Some DuplicateEntry"
proof -
  let ?ui = "bob_form\<lparr>eggCount := 5\<rparr>"
  let ?ui' = "bob_form\<lparr>eggCount := 5, selectedDate := Some march_10_evening\<rparr>"
  have h1: "user ?ui = Some bob" and h1': "user ?ui' = Some bob"
    by (simp_all add: tracker_example_defs)
  have h2: "0 < eggCount ?ui" and h3: "eggCount ?ui \<le> 100"
    and h2': "0 < eggCount ?ui'" and h3': "eggCount ?ui' \<le> 100"
    by (simp_all add: tracker_example_defs)
  have h4: "selectedDate ?ui = Some mid_march"
    and h4': "selectedDate ?ui' = Some march_10_evening"
    by (simp_all add: tracker_example_defs)
  have h5: "startOfDay mid_march \<le> startOfDay mid_march"
    by simp
  have h5': "startOfDay march_10_evening \<le> startOfDay mid_march"
    by (simp add: tracker_example_defs march_10_evening_def date_defs)
  have h6: "editEntry ?ui = None" and h6': "editEntry ?ui' = None"
    by (simp_all add: tracker_example_defs)
  have h7: "\<not> refuses store_with_entries GetDocs" and h8: "\<not> refuses store_with_entries AddDoc"
    by (simp_all add: tracker_example_defs example_defs refuses_def)
  have e1: "entries_on_day (uid bob) mid_march store_with_entries = []"
    by (simp add: entries_on_day_def tracker_example_defs example_defs date_defs)
  have e2: "entries_on_day (uid bob) march_10_evening store_with_entries
              = [doc_of_entry march_entry]"
    by (simp add: entries_on_day_def tracker_example_defs march_10_evening_def example_defs
        date_defs)
  have e3: "march_10_evening \<noteq> entry_date march_entry"
    by (simp add: tracker_example_defs march_10_evening_def date_defs)
  have k1: "coll_eggEntries store_with_entries = [doc_of_entry feb_entry, doc_of_entry march_entry]"
    by (simp add: store_with_entries_def)
  have k2: "fresh_id (coll_eggEntries store_with_entries) = 3"
    by (simp add: tracker_example_defs fresh_id_def)
  have k3: "serverTime store_with_entries = 1000"
    by (simp add: tracker_example_defs example_defs)
  have k4: "eggCount ?ui = 5"
    by simp
  note a = saveEggEntry_create [OF h1 h2 h3 h4 h5 h6 h7 h8]
  note b = saveEggEntry_create [OF h1' h2' h3' h4' h5' h6' h7 h8]
  from a e1
  have r0: "coll_eggEntries (snd (saveEggEntry mid_march ?ui store_with_entries))
     = coll_eggEntries store_with_entries @
         [(fresh_id (coll_eggEntries store_with_entries),
           entry_doc bob mid_march (eggCount ?ui) (serverTime store_with_entries))]"
    by blast
  have r1: "coll_eggEntries (snd (saveEggEntry mid_march ?ui store_with_entries))
     = [doc_of_entry feb_entry, doc_of_entry march_entry, (3, entry_doc bob mid_march 5 1000)]"
    by (simp only: r0 k2 k3 k4) (simp add: k1)
  have e2': "entries_on_day (uid bob) march_10_evening store_with_entries \<noteq> []"
    by (simp add: e2)
  from b e2'
  have r2: "snd (saveEggEntry mid_march ?ui' store_with_entries)
              = request GetDocs store_with_entries"
    and r3: "errorMessage (fst (saveEggEntry mid_march ?ui' store_with_entries))
              = Some DuplicateEntry"
    by blast+
  from h1 h4 h5 h6 h7 h8 e1 r1 e3 h5' e2 r2 r3 show ?thesis
    by blast
qed

text \<open>
  Claim C6. For a signed-in user, a count of 0 or less, a count above 100, or a selected
  date on a later calendar day than today is refused with the message of the failed
  check; the form is otherwise unchanged, and the store is returned exactly as it was,
  trace of requests included: nothing is written and no request is sent.
\<close>

theorem saveEggEntry_rejects_invalid:
  assumes "user ui = Some u"
    and "eggCount ui \<le> 0 \<or> eggCount ui > 100 \<or>
         (\<exists>d. selectedDate ui = Some d \<and> startOfDay d > startOfDay now)"
  shows "snd (saveEggEntry now ui st) = st \<and>
         (\<exists>e \<in> {CountTooLow, CountTooHigh, FutureDate}.
            fst (saveEggEntry now ui st) = ui\<lparr>errorMessage := Some e\<rparr>)"
  using assms by (auto simp: saveEggEntry_def split: option.splits)

theorem saveEggEntry_rejects_invalid_witness:
  "user bob_form = Some bob \<and> eggCount bob_form = 0 \<and>
   saveEggEntry mid_march bob_form store_with_entries
     = (bob_form\<lparr>errorMessage := Some CountTooLow\<rparr>, store_with_entries) \<and>
   eggCount (bob_form\<lparr>eggCount := 101\<rparr>) = 101 \<and>
   saveEggEntry mid_march (bob_form\<lparr>eggCount := 101\<rparr>) store_with_entries
     = (bob_form\<lparr>eggCount := 101, errorMessage := Some CountTooHigh\<rparr>, store_with_entries) \<and>
   startOfDay (mid_march + msPerDay) > startOfDay mid_march \<and>
   saveEggEntry mid_march (bob_form\<lparr>eggCount := 5, selectedDate := Some (mid_march + msPerDay)\<rparr>)
       store_with_entries
     = (bob_form\<lparr>eggCount := 5, selectedDate := Some (mid_march + msPerDay),
                 errorMessage := Some FutureDate\<rparr>, store_with_entries)"
proof -
  let ?hi = "bob_form\<lparr>eggCount := 101\<rparr>"
  let ?late = "bob_form\<lparr>eggCount := 5, selectedDate := Some (mid_march + msPerDay)\<rparr>"
  have u1: "user bob_form = Some bob" and u2: "user ?hi = Some bob"
    and u3: "user ?late = Some bob"
    by (simp_all add: tracker_example_defs)
  have c1: "eggCount bob_form = 0" and c2: "eggCount ?hi = 101"
    by (simp_all add: tracker_example_defs)
  have c3: "startOfDay (mid_march + msPerDay) > startOfDay mid_march"
    by (simp add: tracker_example_defs date_defs)
  have d3: "selectedDate ?late = Some (mid_march + msPerDay)"
    by simp
  have s1: "snd (saveEggEntry mid_march bob_form store_with_entries) = store_with_entries"
    using saveEggEntry_rejects_invalid [OF u1, of mid_march store_with_entries] c1 by simp
  have s2: "snd (saveEggEntry mid_march ?hi store_with_entries) = store_with_entries"
    using saveEggEntry_rejects_invalid [OF u2, of mid_march store_with_entries] c2 by simp
  have s3: "snd (saveEggEntry mid_march ?late store_with_entries) = store_with_entries"
    using saveEggEntry_rejects_invalid [OF u3, of mid_march store_with_entries] c3 d3 by blast
  have f1: "fst (saveEggEntry mid_march bob_form store_with_entries)
              = bob_form\<lparr>errorMessage := Some CountTooLow\<rparr>"
    using u1 c1 by (simp add: saveEggEntry_def)
  have f2: "fst (saveEggEntry mid_march ?hi store_with_entries)
              = bob_form\<lparr>eggCount := 101, errorMessage := Some CountTooHigh\<rparr>"
    using u2 c2 by (simp add: saveEggEntry_def)
  have f3: "fst (saveEggEntry mid_march ?late store_with_entries)
              = bob_form\<lparr>eggCount := 5, selectedDate := Some (mid_march + msPerDay),
                         errorMessage := Some FutureDate\<rparr>"
    using u3 c3 d3 by (simp add: saveEggEntry_def)
  from u1 c1 c2 c3 s1 s2 s3 f1 f2 f3 show ?thesis
    by (simp add: prod_eq_iff)
qed

section \<open>Properties of the admin panel\<close>

lemmas panel_example_defs = alice_entry_def store_two_owners_def admin_panel_def

text \<open>
  With distinct document ids, removing the documents a query on the owner returned leaves
  exactly the documents of the other owners.
\<close>

lemma filter_by_owner_keys:
  assumes "distinct (map fst xs)"
  shows "filter (\<lambda>(k, d). k \<notin> set (map fst (filter (\<lambda>(key, doc). P doc) xs))) xs
           = filter (\<lambda>(k, d). \<not> P d) xs"
proof (rule filter_cong [OF refl])
  fix x assume x: "x \<in> set xs"
  obtain k d where kd: "x = (k, d)" by (cases x)
  have "k \<in> set (map fst (filter (\<lambda>(key, doc). P doc) xs)) \<longleftrightarrow> P d"
  proof
    assume "k \<in> set (map fst (filter (\<lambda>(key, doc). P doc) xs))"
    then obtain d' where d': "(k, d') \<in> set xs" "P d'" by auto
    from assms x d'(1) kd have "d' = d"
      by (meson eq_key_imp_eq_value)
    with d'(2) show "P d" by simp
  next
    assume "P d"
    with x kd show "k \<in> set (map fst (filter (\<lambda>(key, doc). P doc) xs))"
      by force
  qed
  then show "(case x of (k, d) \<Rightarrow> k \<notin> set (map fst (filter (\<lambda>(key, doc). P doc) xs)))
              = (case x of (k, d) \<Rightarrow> \<not> P d)"
    using kd by simp
qed

lemma map_of_None_filter_key:
  assumes "map_of xs n = None"
  shows "filter (\<lambda>(k, d). k \<noteq> n) xs = xs"
  using assms by (induction xs) (auto split: if_splits)

text \<open>
  Claim C8. \<open>clearUserData\<close>, run by an admin who confirms, with the store answering and
  document ids distinct: for an owner without entries it reports that no data was found
  and sends only the query, so the store's data is unchanged; for an owner with \<open>N\<close>
  entries it sends the query and one write batch, after which the collection holds
  exactly the entries of the other owners, unchanged and in their order, and it reports
  \<open>N\<close> removed entries. The allow-list is not touched.
\<close>

theorem clearUserData_wipes_owner:
  assumes "isAdmin admins (panel_user ui)" and "confirmed"
    and "\<not> refuses st GetDocs" and "\<not> refuses st BatchCommit"
    and "distinct (map fst (coll_eggEntries st))"
  shows "(entries_of owner st = [] \<longrightarrow>
            snd (clearUserData admins confirmed owner ui st) = request GetDocs st \<and>
            panel_message (fst (clearUserData admins confirmed owner ui st))
              = Some (ErrorMessage NoEggData)) \<and>
         (entries_of owner st \<noteq> [] \<longrightarrow>
            coll_eggEntries (snd (clearUserData admins confirmed owner ui st))
              = filter (\<lambda>(key, doc). userId doc \<noteq> owner) (coll_eggEntries st) \<and>
            coll_allowedUsers (snd (clearUserData admins confirmed owner ui st))
              = coll_allowedUsers st \<and>
            calls (snd (clearUserData admins confirmed owner ui st))
              = calls st @ [GetDocs, BatchCommit] \<and>
            panel_message (fst (clearUserData admins confirmed owner ui st))
              = Some (SuccessMessage (DataCleared (length (entries_of owner st)))))"
  using assms filter_by_owner_keys [OF assms(5), of "\<lambda>doc. userId doc = owner"]
  by (auto simp: clearUserData_def getDocs_eggEntries_def batch_commit_eggEntries_def
      entries_of_def request_def refuses_def)

theorem clearUserData_wipes_owner_witness:
  "isAdmin example_admins (panel_user admin_panel) \<and>
   \<not> refuses store_two_owners GetDocs \<and> \<not> refuses store_two_owners BatchCommit \<and>
   distinct (map fst (coll_eggEntries store_two_owners)) \<and>
   entries_of ''uid-carol'' store_two_owners = [] \<and>
   snd (clearUserData example_admins True ''uid-carol'' admin_panel store_two_owners)
     = request GetDocs store_two_owners \<and>
   panel_message (fst (clearUserData example_admins True ''uid-carol'' admin_panel
                         store_two_owners)) = Some (ErrorMessage NoEggData) \<and>
   entries_of ''uid-bob'' store_two_owners = [doc_of_entry feb_entry, doc_of_entry march_entry] \<and>
   coll_eggEntries (snd (clearUserData example_admins True ''uid-bob'' admin_panel
                           store_two_owners)) = [doc_of_entry alice_entry] \<and>
   panel_message (fst (clearUserData example_admins True ''uid-bob'' admin_panel
                         store_two_owners)) = Some (SuccessMessage (DataCleared 2))"
proof -
  have h1: "isAdmin example_admins (panel_user admin_panel)"
    by (simp add: panel_example_defs example_defs isAdmin_def)
  have h3: "\<not> refuses store_two_owners GetDocs" and h4: "\<not> refuses store_two_owners BatchCommit"
    by (simp_all add: panel_example_defs example_defs refuses_def)
  have h5: "distinct (map fst (coll_eggEntries store_two_owners))"
    by (simp add: panel_example_defs tracker_example_defs)
  have e1: "entries_of ''uid-carol'' store_two_owners = []"
    by (simp add: entries_of_def panel_example_defs tracker_example_defs)
  have e2: "entries_of ''uid-bob'' store_two_owners
              = [doc_of_entry feb_entry, doc_of_entry march_entry]"
    by (simp add: entries_of_def panel_example_defs tracker_example_defs)
  have e3: "filter (\<lambda>(key, doc). userId doc \<noteq> ''uid-bob'') (coll_eggEntries store_two_owners)
              = [doc_of_entry alice_entry]"
    by (simp add: panel_example_defs tracker_example_defs)
  note a = clearUserData_wipes_owner [OF h1 TrueI h3 h4 h5, of "''uid-carol''"]
  note b = clearUserData_wipes_owner [OF h1 TrueI h3 h4 h5, of "''uid-bob''"]
  from a e1
  have r1: "snd (clearUserData example_admins True ''uid-carol'' admin_panel store_two_owners)
              = request GetDocs store_two_owners"
    and r2: "panel_message (fst (clearUserData example_admins True ''uid-carol'' admin_panel
                         store_two_owners)) = Some (ErrorMessage NoEggData)"
    by blast+
  from b e2 e3
  have r3: "coll_eggEntries (snd (clearUserData example_admins True ''uid-bob'' admin_panel
                           store_two_owners)) = [doc_of_entry alice_entry]"
    and r4: "panel_message (fst (clearUserData example_admins True ''uid-bob'' admin_panel
                         store_two_owners)) = Some (SuccessMessage (DataCleared 2))"
    by simp_all
  from h1 h3 h4 h5 e1 r1 r2 e2 r3 r4 show ?thesis
    by blast
qed

text \<open>
  Claim C9. Take an e-mail address that is not in the allow-list: no document has its
  trimmed, lower-cased form as id or as \<open>email\<close> field. After \<open>addUser\<close> with that address
  in the e-mail field, \<open>removeUser\<close> for the same address (any spelling that agrees with
  the trimmed address up to case, in particular the address as the panel lists it),
  confirmed and with the store answering, leaves the allow-list collection as it was
  before the two operations. When the admin's addition is accepted and the store takes
  the write, the address is in the allow-list in between.
\<close>

theorem addUser_then_removeUser:
  assumes "confirmed" and "\<not> refuses st GetDocs" and "\<not> refuses st DeleteDoc"
    and "toLowerCase e = toLowerCase (trim (newUserEmail ui))"
    and "\<not> allowlisted st (trim (newUserEmail ui))"
  shows "coll_allowedUsers
           (snd (removeUser admins confirmed e (fst (addUser admins ui st))
                   (snd (addUser admins ui st))))
           = coll_allowedUsers st \<and>
         (isAdmin admins (panel_user ui) \<and> emailRegex_test (trim (newUserEmail ui)) \<and>
          find (\<lambda>u. toLowerCase (au_email u) = toLowerCase (trim (newUserEmail ui)))
            (allowedUsers ui) = None \<and> \<not> refuses st SetDoc \<longrightarrow>
            allowlisted (snd (addUser admins ui st)) (trim (newUserEmail ui)))"
proof -
  let ?n = "toLowerCase (trim (newUserEmail ui))"
  from assms(5) have none: "map_of (coll_allowedUsers st) ?n = None"
    and nomatch: "filter (\<lambda>(key, d). doc_email d = Some ?n) (coll_allowedUsers st) = []"
    by (auto simp: allowlisted_def list_ex_iff filter_empty_conv)
  have restored: "coll_allowedUsers
           (snd (removeUser admins confirmed e (fst (addUser admins ui st))
                   (snd (addUser admins ui st))))
           = coll_allowedUsers st"
    using assms(1-4) none nomatch map_of_None_filter_key [OF none]
    by (auto simp: addUser_def removeUser_def setDoc_allowedUsers_def
        getDocs_allowedUsers_where_email_def deleteDoc_allowedUsers_def request_def refuses_def
        Let_def)
  have between: "allowlisted (snd (addUser admins ui st)) (trim (newUserEmail ui))"
    if "isAdmin admins (panel_user ui)" and "emailRegex_test (trim (newUserEmail ui))"
      and "find (\<lambda>u. toLowerCase (au_email u) = toLowerCase (trim (newUserEmail ui)))
            (allowedUsers ui) = None" and "\<not> refuses st SetDoc"
  proof -
    from that(2) have "trim (newUserEmail ui) \<noteq> []"
      by (auto simp: emailRegex_test_def)
    with that none show ?thesis
      by (simp add: addUser_def setDoc_allowedUsers_def request_def refuses_def Let_def
          allowlisted_def)
  qed
  from restored between show ?thesis by blast
qed

theorem addUser_then_removeUser_witness:
  "\<not> refuses store_with_bob GetDocs \<and> \<not> refuses store_with_bob DeleteDoc \<and>
   \<not> refuses store_with_bob SetDoc \<and>
   newUserEmail admin_panel = ''Alice@Example.com'' \<and>
   toLowerCase ''Alice@Example.com'' = toLowerCase (trim (newUserEmail admin_panel)) \<and>
   \<not> allowlisted store_with_bob (trim (newUserEmail admin_panel)) \<and>
   isAdmin example_admins (panel_user admin_panel) \<and>
   emailRegex_test (trim (newUserEmail admin_panel)) \<and>
   allowlisted (snd (addUser example_admins admin_panel store_with_bob))
     (trim (newUserEmail admin_panel)) \<and>
   coll_allowedUsers
     (snd (removeUser example_admins True ''Alice@Example.com''
            (fst (addUser example_admins admin_panel store_with_bob))
            (snd (addUser example_admins admin_panel store_with_bob))))
     = coll_allowedUsers store_with_bob"
proof -
  have t: "trim (newUserEmail admin_panel) = ''Alice@Example.com''"
    by (simp add: panel_example_defs trim_def isWhiteSpace_def)
  have h2: "\<not> refuses store_with_bob GetDocs" and h3: "\<not> refuses store_with_bob DeleteDoc"
    and h6: "\<not> refuses store_with_bob SetDoc"
    by (simp_all add: example_defs refuses_def)
  have h0: "newUserEmail admin_panel = ''Alice@Example.com''"
    by (simp add: panel_example_defs)
  have h4: "toLowerCase ''Alice@Example.com'' = toLowerCase (trim (newUserEmail admin_panel))"
    by (simp only: t)
  have h5: "\<not> allowlisted store_with_bob (trim (newUserEmail admin_panel))"
    by (simp add: t allowlisted_def example_defs string_defs)
  have a1: "isAdmin example_admins (panel_user admin_panel)"
    by (simp add: panel_example_defs example_defs isAdmin_def)
  have a2: "emailRegex_test (trim (newUserEmail admin_panel))"
    unfolding t by code_simp
  have a3: "find (\<lambda>u. toLowerCase (au_email u) = toLowerCase (trim (newUserEmail admin_panel)))
              (allowedUsers admin_panel) = None"
    unfolding t by code_simp
  note a = addUser_then_removeUser [OF TrueI h2 h3 h4 h5, of example_admins]
  from a a1 a2 a3 h6
  have r1: "allowlisted (snd (addUser example_admins admin_panel store_with_bob))
              (trim (newUserEmail admin_panel))"
    by blast
  from a
  have r2: "coll_allowedUsers
     (snd (removeUser example_admins True ''Alice@Example.com''
            (fst (addUser example_admins admin_panel store_with_bob))
            (snd (addUser example_admins admin_panel store_with_bob))))
     = coll_allowedUsers store_with_bob"
    by blast
  from h2 h3 h6 h0 h4 h5 a1 a2 r1 r2 show ?thesis
    by blast
qed

section \<open>Properties of the farm statistics\<close>

lemma fst_accumulate: "fst (accumulate d acc) = fst acc + count_or_zero d"
  by (simp add: accumulate_def count_or_zero_def Let_def)

lemma fst_fold_accumulate:
  "fst (fold accumulate docs acc) = fst acc + sum_list (map count_or_zero docs)"
  by (induction docs arbitrary: acc) (simp_all add: fst_accumulate)

lemma map_of_None_iff: "map_of xs k = None \<longleftrightarrow> k \<notin> fst ` set xs"
  by (simp add: map_of_eq_None_iff)

lemma user_sum_snoc:
  "user_sum (seen @ [d]) k = user_sum seen k + (if userId d = k then count_or_zero d else 0)"
  by (simp add: user_sum_def)

lemma user_sum_unseen: "k \<notin> userId ` set seen \<Longrightarrow> user_sum seen k = 0"
proof -
  assume "k \<notin> userId ` set seen"
  then have "filter (\<lambda>d. userId d = k) seen = []"
    by (auto simp: filter_empty_conv)
  then show ?thesis by (simp add: user_sum_def)
qed

lemma totals_inv_step:
  assumes "totals_inv seen (snd acc)"
  shows "totals_inv (seen @ [d]) (snd (accumulate d acc))"
proof (cases "userId d = []")
  case True
  have same: "snd (accumulate d acc) = snd acc"
    using True by (simp add: accumulate_def Let_def)
  have "user_sum (seen @ [d]) k = user_sum seen k" if "(k, u) \<in> set (snd acc)" for k u
  proof -
    from that have "k \<in> set (map fst (snd acc))" by force
    with assms have "k \<noteq> []" by (auto simp: totals_inv_def)
    with True show ?thesis by (simp add: user_sum_snoc)
  qed
  with assms True show ?thesis
    unfolding totals_inv_def same by auto
next
  case False
  note nonempty = this
  show ?thesis
  proof (cases "map_of (snd acc) (userId d) = None")
    case True
    then have unseen: "userId d \<notin> fst ` set (snd acc)"
      by (simp add: map_of_None_iff)
    with assms nonempty have "userId d \<notin> userId ` set seen"
      by (auto simp: totals_inv_def)
    then have zero: "user_sum seen (userId d) = 0"
      by (rule user_sum_unseen)
    have keys: "map fst (snd (accumulate d acc)) = map fst (snd acc) @ [userId d]"
      using True nonempty by (auto simp: accumulate_def Let_def count_or_zero_def)
    show ?thesis
      unfolding totals_inv_def
    proof (intro conjI)
      show "distinct (map fst (snd (accumulate d acc)))"
        using assms unseen by (simp add: keys totals_inv_def)
      show "set (map fst (snd (accumulate d acc))) = userId ` set (seen @ [d]) - {[]}"
        using assms nonempty by (auto simp: keys totals_inv_def)
      show "\<forall>k u. (k, u) \<in> set (snd (accumulate d acc)) \<longrightarrow>
              ut_userId u = k \<and> totalCount u = user_sum (seen @ [d]) k"
        using assms True nonempty zero unseen
        by (auto simp: accumulate_def Let_def totals_inv_def user_sum_snoc count_or_zero_def
            split: if_splits)
    qed
  next
    case False
    have keys: "map fst (snd (accumulate d acc)) = map fst (snd acc)"
      using False nonempty by (auto simp: accumulate_def Let_def)
    from False have seen: "userId d \<in> fst ` set (snd acc)"
      by (simp add: map_of_None_iff)
    show ?thesis
      unfolding totals_inv_def
    proof (intro conjI)
      show "distinct (map fst (snd (accumulate d acc)))"
        using assms by (simp add: keys totals_inv_def)
      show "set (map fst (snd (accumulate d acc))) = userId ` set (seen @ [d]) - {[]}"
        using assms nonempty seen by (auto simp: keys totals_inv_def)
      show "\<forall>k u. (k, u) \<in> set (snd (accumulate d acc)) \<longrightarrow>
              ut_userId u = k \<and> totalCount u = user_sum (seen @ [d]) k"
        using assms False nonempty
        by (auto simp: accumulate_def Let_def totals_inv_def user_sum_snoc count_or_zero_def
            split: if_splits)
    qed
  qed
qed

lemma totals_inv_fold:
  assumes "totals_inv seen (snd acc)"
  shows "totals_inv (seen @ docs) (snd (fold accumulate docs acc))"
  using assms
proof (induction docs arbitrary: seen acc)
  case Nil
  then show ?case by simp
next
  case (Cons d docs)
  from Cons.prems have "totals_inv (seen @ [d]) (snd (accumulate d acc))"
    by (rule totals_inv_step)
  from Cons.IH [OF this] show ?case by simp
qed

lemma set_Object_values: "set (Object_values props) = snd ` set props"
proof -
  have "set (filter (\<lambda>(k, v). array_index k \<noteq> None) props)
          \<union> set (filter (\<lambda>(k, v). array_index k = None) props) = set props"
    by auto
  then show ?thesis
    by (simp add: Object_values_def image_Un [symmetric] del: set_filter)
qed

lemma distinct_map_Object_values:
  assumes "distinct (map (\<lambda>p. h (snd p)) props)"
  shows "distinct (map h (Object_values props))"
proof -
  from assms have d: "distinct props" and inj: "inj_on (\<lambda>p. h (snd p)) (set props)"
    by (simp_all add: distinct_map)
  let ?A = "sort_key (\<lambda>(k, v). case array_index k of None \<Rightarrow> 0 | Some n \<Rightarrow> n)
              (filter (\<lambda>(k, v). array_index k \<noteq> None) props)"
  let ?B = "filter (\<lambda>(k, v). array_index k = None) props"
  have "distinct (?A @ ?B)"
    using d by auto
  moreover have "inj_on (\<lambda>p. h (snd p)) (set (?A @ ?B))"
    by (rule inj_on_subset [OF inj]) auto
  ultimately have "distinct (map (\<lambda>p. h (snd p)) (?A @ ?B))"
    using distinct_map by blast
  then show ?thesis
    by (simp add: Object_values_def comp_def)
qed

text \<open>
  What the listener computes from a snapshot: the total is the sum of the counts; there is
  one record for each user id that occurs, with the sum of that user's counts; and the
  records are in descending order of their totals.
\<close>

lemma App_onSnapshot_aggregates:
  "fst (App_onSnapshot docs) = sum_list (map count_or_zero docs) \<and>
   set (map ut_userId (snd (App_onSnapshot docs))) = userId ` set docs - {[]} \<and>
   distinct (map ut_userId (snd (App_onSnapshot docs))) \<and>
   (\<forall>u \<in> set (snd (App_onSnapshot docs)). totalCount u = user_sum docs (ut_userId u)) \<and>
   sorted (map (\<lambda>u. - totalCount u) (snd (App_onSnapshot docs)))"
proof (cases "docs = []")
  case True
  then show ?thesis by (simp add: App_onSnapshot_def)
next
  case False
  let ?acc = "fold accumulate docs (0, [])"
  have "totals_inv [] (snd (0 :: int, [] :: (string \<times> UserTotal) list))"
    by (simp add: totals_inv_def)
  from totals_inv_fold [OF this, of docs]
  have inv: "totals_inv docs (snd ?acc)" by simp
  have res: "App_onSnapshot docs
               = (fst ?acc, sort_key (\<lambda>u. - totalCount u) (Object_values (snd ?acc)))"
    using False by (simp add: App_onSnapshot_def Let_def)
  have ids: "map (\<lambda>p. ut_userId (snd p)) (snd ?acc) = map fst (snd ?acc)"
    using inv by (auto simp: totals_inv_def)
  have total: "fst (App_onSnapshot docs) = sum_list (map count_or_zero docs)"
    by (simp add: res fst_fold_accumulate)
  have users: "set (map ut_userId (snd (App_onSnapshot docs))) = userId ` set docs - {[]}"
  proof -
    have "set (map ut_userId (snd (App_onSnapshot docs)))
            = set (map (\<lambda>p. ut_userId (snd p)) (snd ?acc))"
      by (simp add: res set_Object_values image_image)
    also have "\<dots> = userId ` set docs - {[]}"
      using inv unfolding ids by (simp add: totals_inv_def)
    finally show ?thesis .
  qed
  have dist: "distinct (map ut_userId (snd (App_onSnapshot docs)))"
  proof -
    have "distinct (map (\<lambda>p. ut_userId (snd p)) (snd ?acc))"
      using inv unfolding ids by (simp add: totals_inv_def)
    then have "distinct (map ut_userId (Object_values (snd ?acc)))"
      by (rule distinct_map_Object_values)
    then show ?thesis
      by (simp add: res distinct_map)
  qed
  have sums: "\<forall>u \<in> set (snd (App_onSnapshot docs)). totalCount u = user_sum docs (ut_userId u)"
  proof
    fix u assume "u \<in> set (snd (App_onSnapshot docs))"
    then have "u \<in> snd ` set (snd ?acc)"
      by (simp add: res set_Object_values)
    then obtain k where "(k, u) \<in> set (snd ?acc)" by force
    with inv show "totalCount u = user_sum docs (ut_userId u)"
      by (auto simp: totals_inv_def)
  qed
  have ranked: "sorted (map (\<lambda>u. - totalCount u) (snd (App_onSnapshot docs)))"
    by (simp add: res)
  from total users dist sums ranked show ?thesis by blast
qed


lemma sum_list_map_insort_key:
  "sum_list (map f (insort_key g x xs)) = (f x :: int) + sum_list (map f xs)"
  by (induction xs) simp_all

lemma sum_list_map_sort_key:
  "sum_list (map f (sort_key g xs)) = (sum_list (map f xs) :: int)"
  by (induction xs) (simp_all add: sum_list_map_insort_key)

text \<open>
  The total shown for a store: the sum of the counts of the entries dated from the start
  of 1 January to 23:59:59.000 on 31 December of the current year.
\<close>

lemma farm_statistics_total:
  "fst (farm_statistics now st) =
     sum_list (map count_or_zero
       (filter (\<lambda>d. new_Date (getFullYear now) 0 1 0 0 0 0 \<le> date d \<and>
                    date d \<le> new_Date (getFullYear now) 11 31 23 59 59 0)
          (map snd (coll_eggEntries st))))"
proof -
  have "fst (farm_statistics now st)
          = sum_list (map count_or_zero (map snd (eggEntriesQuery now st)))"
    using App_onSnapshot_aggregates [of "map snd (eggEntriesQuery now st)"]
    by (simp add: farm_statistics_def)
  also have "\<dots> = sum_list (map (\<lambda>p. count_or_zero (snd p))
                (filter (\<lambda>(key, d). new_Date (getFullYear now) 0 1 0 0 0 0 \<le> date d \<and>
                    date d \<le> new_Date (getFullYear now) 11 31 23 59 59 0)
                  (coll_eggEntries st)))"
    by (simp add: eggEntriesQuery_def Let_def comp_def sum_list_map_sort_key)
  also have "\<dots> = sum_list (map count_or_zero
       (filter (\<lambda>d. new_Date (getFullYear now) 0 1 0 0 0 0 \<le> date d \<and>
                    date d \<le> new_Date (getFullYear now) 11 31 23 59 59 0)
          (map snd (coll_eggEntries st))))"
    by (simp add: filter_map comp_def split_def)
  finally show ?thesis .
qed

text \<open>
  The scenario of the specification: counts 3, 5 and 2 of three owners give the total 10,
  the ranking 5, 3, 2 and the shares 50, 30 and 20 per cent.
\<close>

lemma App_onSnapshot_3_5_2:
  "fst (App_onSnapshot snapshot_3_5_2) = 10 \<and>
   map totalCount (snd (App_onSnapshot snapshot_3_5_2)) = [5, 3, 2] \<and>
   map ut_userName (snd (App_onSnapshot snapshot_3_5_2)) = [''Bob'', ''Alice'', ''Carol''] \<and>
   map (share (fst (App_onSnapshot snapshot_3_5_2)) \<circ> totalCount)
     (snd (App_onSnapshot snapshot_3_5_2)) = [50, 30, 20]"
  by code_simp

text \<open>
  The share is 0 when the total is not positive. It is rounded from the product as the
  machine computes it: 23 of 40 is shown as 57 per cent, the computed product lying just
  below 57.5.
\<close>

lemma share_no_total: "totalEggs \<le> 0 \<Longrightarrow> share totalEggs userTotal = 0"
  by (simp add: share_def)

lemma share_23_of_40: "share 40 23 = 57"
  by code_simp

text \<open>
  Claim C7 does not hold at the end of the year. The query's upper bound is
  \<open>new Date(currentYear, 11, 31, 23, 59, 59)\<close>, the start of the last second of the year.
  An entry dated 31 December 2025, 23:59:59.500, with count 5 is dated in the calendar year
  2025, so the farm total of 2025 as the claim defines it is 5; the query of a page loaded
  in 2025 does not return the entry, and the statistics show the total 0 and no users.
\<close>

theorem farm_total_misses_last_second:
  "getFullYear (date last_second_entry) = getFullYear new_years_eve \<and>
   spec_farm_total new_years_eve store_last_second = 5 \<and>
   farm_statistics new_years_eve store_last_second = (0, [])"
  by code_simp


end
